theory Spec2Isabelle
  imports Complex_Main "HOL-Library.Multiset"
begin

section \<open>Data model\<close>

text \<open>
  The helpdesk keeps three collections of documents (users, queues, tickets) in a
  document store.  A document identifier (an ObjectId) is modelled as a natural number
  and a \<^verbatim>\<open>Date\<close> as a number of milliseconds.  The store hands out fresh identifiers
  from a counter, so no identifier is used twice.
\<close>

type_synonym oid = nat
type_synonym time = nat

text \<open>
  A JavaScript string is a sequence of UTF-16 code units.  The texts that users supply
  (titles, descriptions, names, comments, tags, filter values) are kept as such
  sequences, since \<^verbatim>\<open>String.prototype.trim\<close> is defined on them; \<open>lit\<close> gives the
  code units of a literal.  Property keys and error messages are only compared and
  stay HOL strings.
\<close>

type_synonym jstring = "nat list"

definition lit :: "string \<Rightarrow> jstring" where
  "lit s = map of_char s"

datatype role = Admin | Agent | Customer

text \<open>
  Modelled from the spec: the user model (\<^verbatim>\<open>user.model.ts\<close>) is not among the
  sources.  A user has an identity, a name, an email and a role among admin, agent and
  customer; these are the fields that \<^verbatim>\<open>UserService.register\<close> stores and returns.
  The credential hash plays no part in what follows and is left out.
\<close>

record user =
  u_id :: oid
  u_name :: jstring
  u_email :: jstring
  u_role :: role

text \<open>\<^verbatim>\<open>IQueue\<close> of \<^verbatim>\<open>queue.model.ts\<close>.\<close>

record queue =
  q_id :: oid
  q_name :: jstring
  q_description :: "jstring option"
  q_isDefault :: bool
  q_createdAt :: time
  q_updatedAt :: time

text \<open>\<^verbatim>\<open>IComment\<close> and \<^verbatim>\<open>ITicket\<close> of the ticket model.\<close>

datatype status = New | Open | Pending | Resolved | Closed

datatype priority = Low | Medium | High | Urgent

record comment =
  c_content :: jstring
  c_author :: oid
  c_isInternal :: bool
  c_createdAt :: time

record ticket =
  t_id :: oid
  t_title :: jstring
  t_description :: jstring
  t_status :: status
  t_priority :: priority
  t_customer :: oid
  t_assignee :: "oid option"
  t_queue :: oid
  t_comments :: "comment list"
  t_tags :: "jstring list"
  t_createdAt :: time
  t_updatedAt :: time
  t_resolvedAt :: "time option"
  t_closedAt :: "time option"

record db =
  db_users :: "user list"
  db_queues :: "queue list"
  db_tickets :: "ticket list"
  db_next_id :: oid

text \<open>
  Every failure of the services is a thrown \<^verbatim>\<open>Error\<close>; the services catch and rethrow
  with the same message, so a failure is a value of this type.  The first four carry the
  literal messages of the source; the others are raised by the object-document mapper
  and the store (schema validation on save, the unique index on a queue's name, a value
  that cannot be cast to the type of its schema path, a search pattern that is no
  regular expression).
\<close>

datatype error =
    TicketNotFound
  | QueueNotFound
  | NoDefaultQueue
  | CannotDeleteDefaultQueue
  | ValidationError
  | DuplicateKey
  | CastError
  | RegexError

fun message :: "error \<Rightarrow> string" where
  "message TicketNotFound = ''Ticket not found''"
| "message QueueNotFound = ''Queue not found''"
| "message NoDefaultQueue = ''No default queue found''"
| "message CannotDeleteDefaultQueue = ''Cannot delete the default queue''"
| "message ValidationError = ''validation failed''"
| "message DuplicateKey = ''E11000 duplicate key error''"
| "message CastError = ''cast failed''"
| "message RegexError = ''Regular expression is invalid''"

section \<open>The document store\<close>

text \<open>
  \<^verbatim>\<open>findOne\<close> and \<^verbatim>\<open>findById\<close> return the first matching document
  (\<^const>\<open>find\<close>); \<^verbatim>\<open>findByIdAndUpdate\<close> and \<^verbatim>\<open>findByIdAndDelete\<close> change the first
  matching document only.
\<close>

fun updateOne :: "('a \<Rightarrow> bool) \<Rightarrow> ('a \<Rightarrow> 'a) \<Rightarrow> 'a list \<Rightarrow> 'a list" where
  "updateOne P f [] = []"
| "updateOne P f (x # xs) = (if P x then f x # xs else x # updateOne P f xs)"

fun deleteOne :: "('a \<Rightarrow> bool) \<Rightarrow> 'a list \<Rightarrow> 'a list" where
  "deleteOne P [] = []"
| "deleteOne P (x # xs) = (if P x then xs else x # deleteOne P xs)"

text \<open>
  The schema option \<^verbatim>\<open>trim: true\<close> applies \<^verbatim>\<open>String.prototype.trim\<close>, which removes
  the white space and the line terminators of ECMAScript at both ends: TAB, LF, VT, FF,
  CR, SPACE, NO-BREAK SPACE (U+00A0), U+1680, U+2000 to U+200A, U+2028, U+2029, U+202F,
  U+205F, U+3000 and U+FEFF.
\<close>

definition isSpace :: "nat \<Rightarrow> bool" where
  "isSpace c =
     (c \<in> set [0x09, 0x0A, 0x0B, 0x0C, 0x0D, 0x20, 0xA0, 0x1680, 0x2028, 0x2029, 0x202F,
                0x205F, 0x3000, 0xFEFF] \<or>
      (0x2000 \<le> c \<and> c \<le> 0x200A))"

definition trim :: "jstring \<Rightarrow> jstring" where
  "trim s = rev (dropWhile isSpace (rev (dropWhile isSpace s)))"

text \<open>A JavaScript condition on an optional boolean: absent and \<^verbatim>\<open>false\<close> are falsy.\<close>

definition truthy :: "bool option \<Rightarrow> bool" where
  "truthy b = (b = Some True)"

section \<open>QueueService\<close>

record queue_data =
  qd_name :: jstring
  qd_description :: "jstring option"
  qd_isDefault :: "bool option"

record queue_patch =
  qp_name :: "jstring option"
  qp_description :: "jstring option"
  qp_isDefault :: "bool option"

text \<open>\<^verbatim>\<open>Queue.updateMany({ isDefault: true }, { $set: { isDefault: false } })\<close>\<close>

definition unsetDefault :: "time \<Rightarrow> queue list \<Rightarrow> queue list" where
  "unsetDefault now qs =
     map (\<lambda>q. if q_isDefault q then q\<lparr>q_isDefault := False, q_updatedAt := now\<rparr> else q) qs"

text \<open>
  \<^verbatim>\<open>new Queue(queueData).save()\<close>: the name is trimmed and required, the index on the
  name is unique, \<^verbatim>\<open>isDefault\<close> defaults to \<^verbatim>\<open>false\<close>.
\<close>

definition Queue_save :: "time \<Rightarrow> queue_data \<Rightarrow> db \<Rightarrow> (error + queue) \<times> db" where
  "Queue_save now qd s =
     (let nm = trim (qd_name qd) in
      if nm = [] then (Inl ValidationError, s)
      else if list_ex (\<lambda>q. q_name q = nm) (db_queues s) then (Inl DuplicateKey, s)
      else
        (let q = \<lparr>q_id = db_next_id s, q_name = nm,
                  q_description = map_option trim (qd_description qd),
                  q_isDefault = truthy (qd_isDefault qd),
                  q_createdAt = now, q_updatedAt = now\<rparr>
         in (Inr q, s\<lparr>db_queues := db_queues s @ [q], db_next_id := Suc (db_next_id s)\<rparr>)))"

definition QueueService_createQueue :: "time \<Rightarrow> queue_data \<Rightarrow> db \<Rightarrow> (error + queue) \<times> db" where
  "QueueService_createQueue now qd s =
     Queue_save now qd
       (if truthy (qd_isDefault qd) then s\<lparr>db_queues := unsetDefault now (db_queues s)\<rparr>
        else s)"

definition QueueService_getQueueById :: "oid \<Rightarrow> db \<Rightarrow> error + queue" where
  "QueueService_getQueueById qid s =
     (case find (\<lambda>q. q_id q = qid) (db_queues s) of
        None \<Rightarrow> Inl QueueNotFound
      | Some q \<Rightarrow> Inr q)"

definition applyQueuePatch :: "time \<Rightarrow> queue_patch \<Rightarrow> queue \<Rightarrow> queue" where
  "applyQueuePatch now qp q =
     q\<lparr>q_name := (case qp_name qp of None \<Rightarrow> q_name q | Some n \<Rightarrow> trim n),
       q_description := (case qp_description qp of None \<Rightarrow> q_description q
                         | Some d \<Rightarrow> Some (trim d)),
       q_isDefault := (case qp_isDefault qp of None \<Rightarrow> q_isDefault q | Some b \<Rightarrow> b),
       q_updatedAt := now\<rparr>"

definition QueueService_updateQueue ::
    "time \<Rightarrow> oid \<Rightarrow> queue_patch \<Rightarrow> db \<Rightarrow> (error + queue) \<times> db" where
  "QueueService_updateQueue now qid qp s =
     (let s1 = (if truthy (qp_isDefault qp)
                then s\<lparr>db_queues := unsetDefault now (db_queues s)\<rparr> else s)
      in case find (\<lambda>q. q_id q = qid) (db_queues s1) of
           None \<Rightarrow> (Inl QueueNotFound, s1)
         | Some q \<Rightarrow>
             if (case qp_name qp of
                   None \<Rightarrow> False
                 | Some n \<Rightarrow> list_ex (\<lambda>r. q_id r \<noteq> qid \<and> q_name r = trim n) (db_queues s1))
             then (Inl DuplicateKey, s1)
             else (Inr (applyQueuePatch now qp q),
                   s1\<lparr>db_queues :=
                        updateOne (\<lambda>r. q_id r = qid) (applyQueuePatch now qp) (db_queues s1)\<rparr>))"

definition QueueService_deleteQueue :: "oid \<Rightarrow> db \<Rightarrow> (error + bool \<times> string) \<times> db" where
  "QueueService_deleteQueue qid s =
     (case QueueService_getQueueById qid s of
        Inl e \<Rightarrow> (Inl e, s)
      | Inr q \<Rightarrow>
          if q_isDefault q then (Inl CannotDeleteDefaultQueue, s)
          else (Inr (True, ''Queue deleted successfully''),
                s\<lparr>db_queues := deleteOne (\<lambda>r. q_id r = qid) (db_queues s)\<rparr>))"

definition QueueService_getDefaultQueue :: "db \<Rightarrow> error + queue" where
  "QueueService_getDefaultQueue s =
     (case find q_isDefault (db_queues s) of
        None \<Rightarrow> Inl NoDefaultQueue
      | Some q \<Rightarrow> Inr q)"

section \<open>Populated tickets\<close>

text \<open>
  The ticket queries \<^verbatim>\<open>populate\<close> the references of a ticket: the customer and the
  assignee with the user's name and email, the queue with its name.  A reference that
  resolves to no stored document is populated with \<^verbatim>\<open>null\<close>.  Comment authors are
  populated by the single-ticket queries only.
\<close>

record user_ref =
  ur_id :: oid
  ur_name :: jstring
  ur_email :: jstring

record queue_ref =
  qr_id :: oid
  qr_name :: jstring

datatype author_ref = AuthorId oid | AuthorDoc "user_ref option"

record comment_view =
  cv_content :: jstring
  cv_author :: author_ref
  cv_isInternal :: bool
  cv_createdAt :: time

record ticket_view =
  tv_id :: oid
  tv_title :: jstring
  tv_description :: jstring
  tv_status :: status
  tv_priority :: priority
  tv_customer :: "user_ref option"
  tv_assignee :: "user_ref option option"
  tv_queue :: "queue_ref option"
  tv_comments :: "comment_view list"
  tv_tags :: "jstring list"
  tv_createdAt :: time
  tv_updatedAt :: time
  tv_resolvedAt :: "time option"
  tv_closedAt :: "time option"

definition populateUser :: "db \<Rightarrow> oid \<Rightarrow> user_ref option" where
  "populateUser s i =
     map_option (\<lambda>u. \<lparr>ur_id = u_id u, ur_name = u_name u, ur_email = u_email u\<rparr>)
       (find (\<lambda>u. u_id u = i) (db_users s))"

definition populateQueue :: "db \<Rightarrow> oid \<Rightarrow> queue_ref option" where
  "populateQueue s i =
     map_option (\<lambda>q. \<lparr>qr_id = q_id q, qr_name = q_name q\<rparr>)
       (find (\<lambda>q. q_id q = i) (db_queues s))"

definition populateComment :: "bool \<Rightarrow> db \<Rightarrow> comment \<Rightarrow> comment_view" where
  "populateComment authors s c =
     \<lparr>cv_content = c_content c,
      cv_author = (if authors then AuthorDoc (populateUser s (c_author c))
                   else AuthorId (c_author c)),
      cv_isInternal = c_isInternal c,
      cv_createdAt = c_createdAt c\<rparr>"

definition populateTicket :: "bool \<Rightarrow> db \<Rightarrow> ticket \<Rightarrow> ticket_view" where
  "populateTicket authors s t =
     \<lparr>tv_id = t_id t, tv_title = t_title t, tv_description = t_description t,
      tv_status = t_status t, tv_priority = t_priority t,
      tv_customer = populateUser s (t_customer t),
      tv_assignee = map_option (populateUser s) (t_assignee t),
      tv_queue = populateQueue s (t_queue t),
      tv_comments = map (populateComment authors s) (t_comments t),
      tv_tags = t_tags t,
      tv_createdAt = t_createdAt t, tv_updatedAt = t_updatedAt t,
      tv_resolvedAt = t_resolvedAt t, tv_closedAt = t_closedAt t\<rparr>"

section \<open>TicketService\<close>

record ticket_data =
  td_title :: jstring
  td_description :: jstring
  td_priority :: "priority option"
  td_customer :: oid
  td_queue :: "oid option"
  td_tags :: "jstring list option"

text \<open>
  \<^verbatim>\<open>new Ticket({...}).save()\<close>: title (trimmed), description, customer and queue are
  required; status defaults to \<^verbatim>\<open>new\<close>, the comments to the empty array; assignee,
  \<^verbatim>\<open>resolvedAt\<close> and \<^verbatim>\<open>closedAt\<close> are not among the constructor's arguments.
\<close>

definition Ticket_save :: "time \<Rightarrow> ticket_data \<Rightarrow> oid option \<Rightarrow> db \<Rightarrow> (error + ticket) \<times> db" where
  "Ticket_save now td qo s =
     (case qo of
        None \<Rightarrow> (Inl ValidationError, s)
      | Some qid \<Rightarrow>
          if trim (td_title td) = [] \<or> td_description td = [] then (Inl ValidationError, s)
          else
            (let t = \<lparr>t_id = db_next_id s, t_title = trim (td_title td),
                      t_description = td_description td, t_status = New,
                      t_priority = (case td_priority td of None \<Rightarrow> Medium | Some p \<Rightarrow> p),
                      t_customer = td_customer td, t_assignee = None, t_queue = qid,
                      t_comments = [],
                      t_tags = (case td_tags td of None \<Rightarrow> [] | Some ts \<Rightarrow> ts),
                      t_createdAt = now, t_updatedAt = now,
                      t_resolvedAt = None, t_closedAt = None\<rparr>
             in (Inr t, s\<lparr>db_tickets := db_tickets s @ [t],
                          db_next_id := Suc (db_next_id s)\<rparr>)))"

definition TicketService_getTicketById :: "oid \<Rightarrow> db \<Rightarrow> error + ticket_view" where
  "TicketService_getTicketById tid s =
     (case find (\<lambda>t. t_id t = tid) (db_tickets s) of
        None \<Rightarrow> Inl TicketNotFound
      | Some t \<Rightarrow> Inr (populateTicket True s t))"

text \<open>
  The first block of \<^verbatim>\<open>createTicket\<close>: the queue of the new ticket.  With no queue
  given, the default queue is looked up; when the lookup throws, a queue named General
  is created as the default one.
\<close>

definition generalQueue :: queue_data where
  "generalQueue =
     \<lparr>qd_name = lit ''General'', qd_description = Some (lit ''Default queue for all tickets''),
      qd_isDefault = Some True\<rparr>"

definition createTicket_queue :: "time \<Rightarrow> ticket_data \<Rightarrow> db \<Rightarrow> (error + oid option) \<times> db" where
  "createTicket_queue now td s =
     (case td_queue td of
        Some q \<Rightarrow> (Inr (Some q), s)
      | None \<Rightarrow>
          (case QueueService_getDefaultQueue s of
             Inr dq \<Rightarrow> (Inr (Some (q_id dq)), s)
           | Inl _ \<Rightarrow>
               (case QueueService_createQueue now generalQueue s of
                  (Inl e, s') \<Rightarrow> (Inl e, s')
                | (Inr gq, s') \<Rightarrow> (Inr (Some (q_id gq)), s'))))"

definition TicketService_createTicket ::
    "time \<Rightarrow> ticket_data \<Rightarrow> db \<Rightarrow> (error + ticket_view) \<times> db" where
  "TicketService_createTicket now td s =
     (case createTicket_queue now td s of
        (Inl e, s1) \<Rightarrow> (Inl e, s1)
      | (Inr qo, s1) \<Rightarrow>
          (case Ticket_save now td qo s1 of
             (Inl e, s2) \<Rightarrow> (Inl e, s2)
           | (Inr t, s2) \<Rightarrow> (TicketService_getTicketById (t_id t) s2, s2)))"

text \<open>
  \<^verbatim>\<open>Partial<ITicket>\<close>: every path of the ticket schema may be present or absent.
  \<^verbatim>\<open>p_other\<close> lists the keys of the object that are no path of the schema; the
  mapper drops them from an update.
\<close>

record ticket_patch =
  p_title :: "jstring option"
  p_description :: "jstring option"
  p_status :: "status option"
  p_priority :: "priority option"
  p_customer :: "oid option"
  p_assignee :: "oid option"
  p_queue :: "oid option"
  p_comments :: "comment list option"
  p_tags :: "jstring list option"
  p_resolvedAt :: "time option"
  p_closedAt :: "time option"
  p_other :: "string list"

text \<open>\<^verbatim>\<open>Ticket.findById(ticketId)\<close>, with no reference populated.\<close>

definition Ticket_findById :: "oid \<Rightarrow> db \<Rightarrow> ticket option" where
  "Ticket_findById tid s = find (\<lambda>t. t_id t = tid) (db_tickets s)"

text \<open>The status block of \<^verbatim>\<open>updateTicket\<close>: the time stamps of a transition.\<close>

definition statusTransition :: "time \<Rightarrow> oid \<Rightarrow> ticket_patch \<Rightarrow> db \<Rightarrow> error + ticket_patch" where
  "statusTransition now tid p s =
     (case p_status p of
        None \<Rightarrow> Inr p
      | Some st \<Rightarrow>
          (case find (\<lambda>t. t_id t = tid) (db_tickets s) of
             None \<Rightarrow> Inl TicketNotFound
           | Some cur \<Rightarrow>
               (let pa = (if st = Resolved \<and> t_status cur \<noteq> Resolved
                          then p\<lparr>p_resolvedAt := Some now\<rparr> else p)
                in Inr (if st = Closed \<and> t_status cur \<noteq> Closed
                        then pa\<lparr>p_closedAt := Some now\<rparr> else pa))))"

text \<open>\<^verbatim>\<open>{ $set: ticketData }\<close>: each path present in the patch replaces the stored value.\<close>

definition applyTicketPatch :: "time \<Rightarrow> ticket_patch \<Rightarrow> ticket \<Rightarrow> ticket" where
  "applyTicketPatch now p t =
     t\<lparr>t_title := (case p_title p of None \<Rightarrow> t_title t | Some x \<Rightarrow> trim x),
       t_description := (case p_description p of None \<Rightarrow> t_description t | Some x \<Rightarrow> x),
       t_status := (case p_status p of None \<Rightarrow> t_status t | Some x \<Rightarrow> x),
       t_priority := (case p_priority p of None \<Rightarrow> t_priority t | Some x \<Rightarrow> x),
       t_customer := (case p_customer p of None \<Rightarrow> t_customer t | Some x \<Rightarrow> x),
       t_assignee := (case p_assignee p of None \<Rightarrow> t_assignee t | Some x \<Rightarrow> Some x),
       t_queue := (case p_queue p of None \<Rightarrow> t_queue t | Some x \<Rightarrow> x),
       t_comments := (case p_comments p of None \<Rightarrow> t_comments t | Some x \<Rightarrow> x),
       t_tags := (case p_tags p of None \<Rightarrow> t_tags t | Some x \<Rightarrow> x),
       t_resolvedAt := (case p_resolvedAt p of None \<Rightarrow> t_resolvedAt t | Some x \<Rightarrow> Some x),
       t_closedAt := (case p_closedAt p of None \<Rightarrow> t_closedAt t | Some x \<Rightarrow> Some x),
       t_updatedAt := now\<rparr>"

definition TicketService_updateTicket ::
    "time \<Rightarrow> oid \<Rightarrow> ticket_patch \<Rightarrow> db \<Rightarrow> (error + ticket_view) \<times> db" where
  "TicketService_updateTicket now tid p s =
     (case statusTransition now tid (p\<lparr>p_comments := None\<rparr>) s of
        Inl e \<Rightarrow> (Inl e, s)
      | Inr p' \<Rightarrow>
          (case find (\<lambda>t. t_id t = tid) (db_tickets s) of
             None \<Rightarrow> (Inl TicketNotFound, s)
           | Some t \<Rightarrow>
               (let s' = s\<lparr>db_tickets :=
                             updateOne (\<lambda>t. t_id t = tid) (applyTicketPatch now p')
                               (db_tickets s)\<rparr>
                in (Inr (populateTicket True s' (applyTicketPatch now p' t)), s'))))"

text \<open>\<^verbatim>\<open>{ $push: { comments: commentData } }\<close>\<close>

definition pushComment :: "time \<Rightarrow> comment \<Rightarrow> ticket \<Rightarrow> ticket" where
  "pushComment now c t = t\<lparr>t_comments := t_comments t @ [c], t_updatedAt := now\<rparr>"

definition TicketService_addComment ::
    "time \<Rightarrow> oid \<Rightarrow> jstring \<Rightarrow> oid \<Rightarrow> bool option \<Rightarrow> db \<Rightarrow> (error + ticket_view) \<times> db" where
  "TicketService_addComment now tid content author isInternal s =
     (let commentData = \<lparr>c_content = content, c_author = author,
                          c_isInternal = truthy isInternal, c_createdAt = now\<rparr>
      in case find (\<lambda>t. t_id t = tid) (db_tickets s) of
           None \<Rightarrow> (Inl TicketNotFound, s)
         | Some t \<Rightarrow>
             (let s' = s\<lparr>db_tickets :=
                           updateOne (\<lambda>t. t_id t = tid) (pushComment now commentData)
                             (db_tickets s)\<rparr>
              in (Inr (populateTicket True s' (pushComment now commentData t)), s')))"

text \<open>
  \<^verbatim>\<open>assignTicket\<close> passes one update document to \<^verbatim>\<open>findByIdAndUpdate\<close>:
  \<^verbatim>\<open>{ $set: { assignee: assigneeId, status: { $cond: [{ $eq: ["$status", "new"] }, "open", "$status"] } } }\<close>.
  It is an update document, not an aggregation pipeline (a pipeline is an array of
  stages), so the operand of \<^verbatim>\<open>status\<close> is the object \<^verbatim>\<open>{ $cond: ... }\<close> itself
  and nothing evaluates it.  The mapper casts every operand of \<^verbatim>\<open>$set\<close> to the type
  of its schema path; \<^verbatim>\<open>status\<close> is a String path, the object is no string, and the
  cast throws before anything is sent to the store.
\<close>

datatype status_operand =
    StatusValue status
  | StatusCond

definition castStatus :: "status_operand \<Rightarrow> error + status" where
  "castStatus v = (case v of StatusValue st \<Rightarrow> Inr st | StatusCond \<Rightarrow> Inl CastError)"

definition TicketService_assignTicket ::
    "time \<Rightarrow> oid \<Rightarrow> oid \<Rightarrow> db \<Rightarrow> (error + ticket_view) \<times> db" where
  "TicketService_assignTicket now tid assigneeId s =
     (case castStatus StatusCond of
        Inl e \<Rightarrow> (Inl e, s)
      | Inr st \<Rightarrow>
          (case find (\<lambda>t. t_id t = tid) (db_tickets s) of
             None \<Rightarrow> (Inl TicketNotFound, s)
           | Some t \<Rightarrow>
               (let upd = (\<lambda>t. t\<lparr>t_assignee := Some assigneeId, t_status := st,
                                  t_updatedAt := now\<rparr>);
                    s' = s\<lparr>db_tickets := updateOne (\<lambda>t. t_id t = tid) upd (db_tickets s)\<rparr>
                in (Inr (populateTicket True s' (upd t)), s'))))"

subsection \<open>Listing tickets\<close>

text \<open>
  The filters of \<^verbatim>\<open>getTickets\<close>.  A status or priority filter is one string or an
  array of strings; the page and the limit are numbers (the route accepts integers
  from 1 only, so they are naturals here).  A filter is applied when its value is
  truthy: an absent value, the empty string and the number 0 are not.
\<close>

datatype 'a one_or_many = One 'a | Many "'a list"

record ticket_filter =
  f_status :: "jstring one_or_many option"
  f_priority :: "jstring one_or_many option"
  f_queue :: "oid option"
  f_assignee :: "oid option"
  f_customer :: "oid option"
  f_search :: "jstring option"
  f_page :: "nat option"
  f_limit :: "nat option"

fun statusName :: "status \<Rightarrow> jstring" where
  "statusName New = lit ''new''"
| "statusName Open = lit ''open''"
| "statusName Pending = lit ''pending''"
| "statusName Resolved = lit ''resolved''"
| "statusName Closed = lit ''closed''"

fun priorityName :: "priority \<Rightarrow> jstring" where
  "priorityName Low = lit ''low''"
| "priorityName Medium = lit ''medium''"
| "priorityName High = lit ''high''"
| "priorityName Urgent = lit ''urgent''"

text \<open>\<^verbatim>\<open>Array.isArray(v) ? { $in: v } : v\<close>, for a stored string \<open>x\<close>.\<close>

fun matchOneOrMany :: "jstring one_or_many option \<Rightarrow> jstring \<Rightarrow> bool" where
  "matchOneOrMany None x = True"
| "matchOneOrMany (Some (One v)) x = (if v = [] then True else x = v)"
| "matchOneOrMany (Some (Many vs)) x = (x \<in> set vs)"

fun matchId :: "oid option \<Rightarrow> oid option \<Rightarrow> bool" where
  "matchId None x = True"
| "matchId (Some v) x = (x = Some v)"

text \<open>
  What the code leaves to the store.  The search filter is passed as a case-insensitive
  regular expression (\<^verbatim>\<open>{ $regex: filters.search, $options: 'i' }\<close>): \<open>eng_regex\<close>
  gives, for a pattern, the texts it matches, or nothing when the store rejects the
  pattern.  \<^verbatim>\<open>.sort({ createdAt: -1 })\<close> is \<open>eng_sort\<close>; the store orders the tickets by
  \<^verbatim>\<open>createdAt\<close>, descending, and is free among tickets of equal \<^verbatim>\<open>createdAt\<close>
  (\<open>sortsNewestFirst\<close>).
\<close>

record engine =
  eng_regex :: "jstring \<Rightarrow> (jstring \<Rightarrow> bool) option"
  eng_sort :: "ticket list \<Rightarrow> ticket list"

definition sortsNewestFirst :: "(ticket list \<Rightarrow> ticket list) \<Rightarrow> bool" where
  "sortsNewestFirst srt =
     (\<forall>ts. mset (srt ts) = mset ts \<and>
           sorted_wrt (\<lambda>a b. t_createdAt b \<le> t_createdAt a) (srt ts))"

text \<open>\<^verbatim>\<open>if (filters.search)\<close>: the pattern, when it is present and not empty.\<close>

definition searchOf :: "ticket_filter \<Rightarrow> jstring option" where
  "searchOf f = (case f_search f of None \<Rightarrow> None | Some pat \<Rightarrow> if pat = [] then None else Some pat)"

text \<open>
  The query built from the filters; \<open>m\<close> is the compiled search pattern, when a search
  applies.
\<close>

definition matchesQuery :: "(jstring \<Rightarrow> bool) option \<Rightarrow> ticket_filter \<Rightarrow> ticket \<Rightarrow> bool" where
  "matchesQuery m f t =
     (matchOneOrMany (f_status f) (statusName (t_status t)) \<and>
      matchOneOrMany (f_priority f) (priorityName (t_priority t)) \<and>
      matchId (f_queue f) (Some (t_queue t)) \<and>
      matchId (f_assignee f) (t_assignee t) \<and>
      matchId (f_customer f) (Some (t_customer t)) \<and>
      (case m of None \<Rightarrow> True | Some mt \<Rightarrow> mt (t_title t) \<or> mt (t_description t)))"

record ticket_page =
  r_tickets :: "ticket_view list"
  r_total :: nat
  r_page :: nat
  r_pages :: nat

definition orDefault :: "nat option \<Rightarrow> nat \<Rightarrow> nat" where
  "orDefault v d = (case v of None \<Rightarrow> d | Some n \<Rightarrow> if n = 0 then d else n)"

text \<open>
  \<^verbatim>\<open>getTickets\<close>.  Counting and finding throw when the store rejects the search
  pattern; the service rethrows.
\<close>

definition compileSearch :: "engine \<Rightarrow> ticket_filter \<Rightarrow> error + (jstring \<Rightarrow> bool) option" where
  "compileSearch eng filters =
     (case searchOf filters of
        None \<Rightarrow> Inr None
      | Some pat \<Rightarrow>
          (case eng_regex eng pat of None \<Rightarrow> Inl RegexError | Some mt \<Rightarrow> Inr (Some mt)))"

definition TicketService_getTickets :: "engine \<Rightarrow> ticket_filter \<Rightarrow> db \<Rightarrow> error + ticket_page" where
  "TicketService_getTickets eng filters s =
     (let page = orDefault (f_page filters) 1;
          limit = orDefault (f_limit filters) 10;
          skip = (page - 1) * limit
      in case compileSearch eng filters of
           Inl e \<Rightarrow> Inl e
         | Inr m \<Rightarrow>
             (let found = filter (matchesQuery m filters) (db_tickets s);
                  total = length found
              in Inr \<lparr>r_tickets = map (populateTicket False s)
                                     (take limit (drop skip (eng_sort eng found))),
                      r_total = total,
                      r_page = page,
                      r_pages = nat \<lceil>real total / real limit\<rceil>\<rparr>))"


text \<open>One store: it takes every pattern to match nothing and sorts stably.\<close>

definition newestFirst :: "ticket list \<Rightarrow> ticket list" where
  "newestFirst ts = rev (sort_key t_createdAt ts)"

definition plain_engine :: engine where
  "plain_engine = \<lparr>eng_regex = (\<lambda>pat. Some (\<lambda>txt. False)), eng_sort = newestFirst\<rparr>"

text \<open>A store that rejects every pattern.\<close>

definition strict_engine :: engine where
  "strict_engine = \<lparr>eng_regex = (\<lambda>pat. None), eng_sort = newestFirst\<rparr>"

section \<open>TicketController\<close>

text \<open>
  A request as the handlers read it: the authenticated user, the \<^verbatim>\<open>:id\<close> of the path,
  the query, the body, and the errors that the route's validation chain left on the
  request (\<^verbatim>\<open>validationResult(req)\<close>).  A response is a status code with a JSON
  document, a message or the validation errors.
\<close>

record ('q, 'b) request =
  req_user :: "user option"
  req_id :: oid
  req_query :: 'q
  req_body :: 'b
  req_errors :: "string list"

datatype 'a response =
    Json nat 'a
  | Message nat string
  | Errors nat "string list"

text \<open>\<^verbatim>\<open>req.user?.role === 'customer'\<close>\<close>

definition isCustomer :: "user option \<Rightarrow> bool" where
  "isCustomer uo = (case uo of None \<Rightarrow> False | Some u \<Rightarrow> u_role u = Customer)"

text \<open>
  The ownership condition of the handlers: the actor is a customer, the populated
  customer of the ticket is an object, and its id is not the actor's.
\<close>

definition otherCustomers :: "user option \<Rightarrow> ticket_view \<Rightarrow> bool" where
  "otherCustomers uo v =
     (case uo of
        None \<Rightarrow> False
      | Some u \<Rightarrow>
          u_role u = Customer \<and>
          (case tv_customer v of None \<Rightarrow> False | Some c \<Rightarrow> ur_id c \<noteq> u_id u))"

definition TicketController_getTickets ::
    "engine \<Rightarrow> (ticket_filter, 'b) request \<Rightarrow> db \<Rightarrow> ticket_page response" where
  "TicketController_getTickets eng req s =
     (if req_errors req \<noteq> [] then Errors 400 (req_errors req)
      else
        (let filters = (case req_user req of
                          None \<Rightarrow> req_query req
                        | Some u \<Rightarrow> if u_role u = Customer
                                    then (req_query req)\<lparr>f_customer := Some (u_id u)\<rparr>
                                    else req_query req)
         in case TicketService_getTickets eng filters s of
              Inl e \<Rightarrow> Message 500 (message e)
            | Inr result \<Rightarrow> Json 200 result))"

definition TicketController_getTicketById ::
    "('q, 'b) request \<Rightarrow> db \<Rightarrow> ticket_view response" where
  "TicketController_getTicketById req s =
     (case TicketService_getTicketById (req_id req) s of
        Inl e \<Rightarrow> Message 404 (message e)
      | Inr ticket \<Rightarrow>
          if otherCustomers (req_user req) ticket
          then Message 403 ''Not authorized to access this ticket''
          else Json 200 ticket)"

text \<open>\<^verbatim>\<open>Object.keys(req.body)\<close>\<close>

definition keyOf :: "'a option \<Rightarrow> string \<Rightarrow> string list" where
  "keyOf v k = (case v of None \<Rightarrow> [] | Some _ \<Rightarrow> [k])"

definition patchKeys :: "ticket_patch \<Rightarrow> string list" where
  "patchKeys p =
     keyOf (p_title p) ''title'' @ keyOf (p_description p) ''description'' @
     keyOf (p_status p) ''status'' @ keyOf (p_priority p) ''priority'' @
     keyOf (p_customer p) ''customer'' @ keyOf (p_assignee p) ''assignee'' @
     keyOf (p_queue p) ''queue'' @ keyOf (p_comments p) ''comments'' @
     keyOf (p_tags p) ''tags'' @ keyOf (p_resolvedAt p) ''resolvedAt'' @
     keyOf (p_closedAt p) ''closedAt'' @ p_other p"

definition allowedUpdates :: "string list" where
  "allowedUpdates = [''title'', ''description'']"

definition hasDisallowedUpdates :: "ticket_patch \<Rightarrow> bool" where
  "hasDisallowedUpdates p = list_ex (\<lambda>k. k \<notin> set allowedUpdates) (patchKeys p)"

definition TicketController_updateTicket ::
    "time \<Rightarrow> ('q, ticket_patch) request \<Rightarrow> db \<Rightarrow> ticket_view response \<times> db" where
  "TicketController_updateTicket now req s =
     (if req_errors req \<noteq> [] then (Errors 400 (req_errors req), s)
      else
        (case TicketService_getTicketById (req_id req) s of
           Inl e \<Rightarrow> (Message 500 (message e), s)
         | Inr existingTicket \<Rightarrow>
             if otherCustomers (req_user req) existingTicket
             then (Message 403 ''Not authorized to update this ticket'', s)
             else if isCustomer (req_user req) \<and> hasDisallowedUpdates (req_body req)
             then (Message 403 ''Customers can only update title and description'', s)
             else
               (case TicketService_updateTicket now (req_id req) (req_body req) s of
                  (Inl e, s') \<Rightarrow> (Message 500 (message e), s')
                | (Inr ticket, s') \<Rightarrow> (Json 200 ticket, s'))))"

record comment_body =
  cb_content :: jstring
  cb_isInternal :: "bool option"

definition TicketController_addComment ::
    "time \<Rightarrow> ('q, comment_body) request \<Rightarrow> db \<Rightarrow> ticket_view response \<times> db" where
  "TicketController_addComment now req s =
     (if req_errors req \<noteq> [] then (Errors 400 (req_errors req), s)
      else
        (case req_user req of
           None \<Rightarrow> (Message 401 ''Not authenticated'', s)
         | Some u \<Rightarrow>
             if u_role u = Customer \<and> truthy (cb_isInternal (req_body req))
             then (Message 403 ''Customers cannot create internal comments'', s)
             else
               (case TicketService_getTicketById (req_id req) s of
                  Inl e \<Rightarrow> (Message 500 (message e), s)
                | Inr ticket \<Rightarrow>
                    if otherCustomers (Some u) ticket
                    then (Message 403 ''Not authorized to comment on this ticket'', s)
                    else
                      (case TicketService_addComment now (req_id req)
                              (cb_content (req_body req)) (u_id u)
                              (cb_isInternal (req_body req)) s of
                         (Inl e, s') \<Rightarrow> (Message 500 (message e), s')
                       | (Inr updatedTicket, s') \<Rightarrow> (Json 200 updatedTicket, s')))))"

section \<open>Well-formed stores and sequences of queue operations\<close>

text \<open>
  The store keeps identifiers unique within a collection, and the counter is beyond
  every identifier handed out so far.
\<close>

definition wf_db :: "db \<Rightarrow> bool" where
  "wf_db s =
     (distinct (map q_id (db_queues s)) \<and> distinct (map t_id (db_tickets s)) \<and>
      list_all (\<lambda>q. q_id q < db_next_id s) (db_queues s) \<and>
      list_all (\<lambda>t. t_id t < db_next_id s) (db_tickets s))"

definition at_most_one_default :: "queue list \<Rightarrow> bool" where
  "at_most_one_default qs = (length (filter q_isDefault qs) \<le> 1)"

datatype queue_op =
    CreateQueue time queue_data
  | UpdateQueue time oid queue_patch
  | DeleteQueue oid

fun run_queue_op :: "queue_op \<Rightarrow> db \<Rightarrow> db" where
  "run_queue_op (CreateQueue now qd) s = snd (QueueService_createQueue now qd s)"
| "run_queue_op (UpdateQueue now qid qp) s = snd (QueueService_updateQueue now qid qp s)"
| "run_queue_op (DeleteQueue qid) s = snd (QueueService_deleteQueue qid s)"

fun run_queue_ops :: "queue_op list \<Rightarrow> db \<Rightarrow> db" where
  "run_queue_ops [] s = s"
| "run_queue_ops (x # xs) s = run_queue_ops xs (run_queue_op x s)"

section \<open>Example stores\<close>

text \<open>
  Concrete users, queues, tickets, stores and requests, on which the theorems below are
  instantiated and the services are run.
\<close>

text \<open>What a call returned, when it did not throw.\<close>

definition returned :: "'e + 'a \<Rightarrow> 'a option" where
  "returned r = (case r of Inl _ \<Rightarrow> None | Inr v \<Rightarrow> Some v)"


definition alice :: user where
  "alice = \<lparr>u_id = 1, u_name = lit ''Alice'', u_email = lit ''alice@example.org'', u_role = Customer\<rparr>"

definition bob :: user where
  "bob = \<lparr>u_id = 2, u_name = lit ''Bob'', u_email = lit ''bob@example.org'', u_role = Customer\<rparr>"

definition carol :: user where
  "carol = \<lparr>u_id = 3, u_name = lit ''Carol'', u_email = lit ''carol@example.org'', u_role = Agent\<rparr>"

definition dave :: user where
  "dave = \<lparr>u_id = 4, u_name = lit ''Dave'', u_email = lit ''dave@example.org'', u_role = Admin\<rparr>"

definition support :: queue where
  "support = \<lparr>q_id = 10, q_name = lit ''Support'', q_description = None, q_isDefault = True,
              q_createdAt = 1, q_updatedAt = 1\<rparr>"

definition billing :: queue where
  "billing = \<lparr>q_id = 11, q_name = lit ''Billing'', q_description = Some (lit ''Invoices''),
              q_isDefault = False, q_createdAt = 2, q_updatedAt = 2\<rparr>"

definition general :: queue where
  "general = \<lparr>q_id = 12, q_name = lit ''General'',
              q_description = Some (lit ''Default queue for all tickets''),
              q_isDefault = False, q_createdAt = 3, q_updatedAt = 4\<rparr>"

definition note1 :: comment where
  "note1 = \<lparr>c_content = lit ''It fails on login'', c_author = 1, c_isInternal = False,
            c_createdAt = 6\<rparr>"

definition ticket1 :: ticket where
  "ticket1 = \<lparr>t_id = 20, t_title = lit ''Printer'', t_description = lit ''Printer is broken'',
              t_status = New, t_priority = High, t_customer = 1, t_assignee = None,
              t_queue = 10, t_comments = [note1], t_tags = [], t_createdAt = 5,
              t_updatedAt = 6, t_resolvedAt = None, t_closedAt = None\<rparr>"

definition ticket2 :: ticket where
  "ticket2 = \<lparr>t_id = 21, t_title = lit ''Invoice'', t_description = lit ''Wrong amount'',
              t_status = Resolved, t_priority = Medium, t_customer = 2,
              t_assignee = Some 3, t_queue = 11, t_comments = [], t_tags = [lit ''money''],
              t_createdAt = 7, t_updatedAt = 9, t_resolvedAt = Some 9, t_closedAt = None\<rparr>"

definition ticket3 :: ticket where
  "ticket3 = \<lparr>t_id = 22, t_title = lit ''Password'', t_description = lit ''Reset my password'',
              t_status = Open, t_priority = High, t_customer = 1, t_assignee = Some 3,
              t_queue = 10, t_comments = [], t_tags = [], t_createdAt = 8,
              t_updatedAt = 8, t_resolvedAt = None, t_closedAt = None\<rparr>"

definition empty_db :: db where
  "empty_db = \<lparr>db_users = [alice, bob, carol, dave], db_queues = [], db_tickets = [],
               db_next_id = 10\<rparr>"

definition example_db :: db where
  "example_db = \<lparr>db_users = [alice, bob, carol, dave], db_queues = [support, billing],
                 db_tickets = [ticket1, ticket2, ticket3], db_next_id = 30\<rparr>"

text \<open>A store with no default queue, in which a queue named General exists.\<close>

definition general_db :: db where
  "general_db = \<lparr>db_users = [alice, bob, carol, dave], db_queues = [billing, general],
                 db_tickets = [], db_next_id = 30\<rparr>"

text \<open>A store in which the customer of a ticket resolves to no stored user.\<close>

definition dangling_db :: db where
  "dangling_db = \<lparr>db_users = [alice, bob, carol, dave], db_queues = [support, billing],
                  db_tickets = [ticket1\<lparr>t_customer := 99\<rparr>], db_next_id = 30\<rparr>"

definition help_request :: ticket_data where
  "help_request = \<lparr>td_title = lit ''Help'', td_description = lit ''Nothing works'',
                   td_priority = None, td_customer = 1, td_queue = None, td_tags = None\<rparr>"

definition sales_data :: queue_data where
  "sales_data = \<lparr>qd_name = lit ''Sales'', qd_description = None, qd_isDefault = Some True\<rparr>"

definition make_default :: queue_patch where
  "make_default = \<lparr>qp_name = None, qp_description = None, qp_isDefault = Some True\<rparr>"

definition no_filter :: ticket_filter where
  "no_filter = \<lparr>f_status = None, f_priority = None, f_queue = None, f_assignee = None,
                f_customer = None, f_search = None, f_page = None, f_limit = None\<rparr>"

definition no_patch :: ticket_patch where
  "no_patch = \<lparr>p_title = None, p_description = None, p_status = None, p_priority = None,
               p_customer = None, p_assignee = None, p_queue = None, p_comments = None,
               p_tags = None, p_resolvedAt = None, p_closedAt = None, p_other = []\<rparr>"

definition resolve_patch :: ticket_patch where
  "resolve_patch = no_patch\<lparr>p_status := Some Resolved\<rparr>"

definition reopen_patch :: ticket_patch where
  "reopen_patch = no_patch\<lparr>p_status := Some Open\<rparr>"

text \<open>A patch that carries a \<^verbatim>\<open>resolvedAt\<close> of its own.\<close>

definition backdate_patch :: ticket_patch where
  "backdate_patch = no_patch\<lparr>p_status := Some Resolved, p_resolvedAt := Some 99\<rparr>"

definition internal_note :: "(unit, comment_body) request" where
  "internal_note = \<lparr>req_user = Some carol, req_id = 20, req_query = (),
      req_body = \<lparr>cb_content = lit ''Call the vendor'', cb_isInternal = Some True\<rparr>,
      req_errors = []\<rparr>"

text \<open>A new title between a no-break space and an em space.\<close>

definition rename_request :: "(unit, ticket_patch) request" where
  "rename_request = \<lparr>req_user = Some alice, req_id = 20, req_query = (),
      req_body = no_patch\<lparr>p_title := Some (0xA0 # lit '' Printer on fire '' @ [0x2003])\<rparr>,
      req_errors = []\<rparr>"

definition close_request :: "(unit, ticket_patch) request" where
  "close_request = \<lparr>req_user = Some alice, req_id = 20, req_query = (),
      req_body = no_patch\<lparr>p_title := Some (lit ''Printer on fire''), p_status := Some Closed\<rparr>,
      req_errors = []\<rparr>"

text \<open>The status code of a response.\<close>

fun statusCode :: "'a response \<Rightarrow> nat" where
  "statusCode (Json n _) = n"
| "statusCode (Message n _) = n"
| "statusCode (Errors n _) = n"

definition view_request :: "(ticket_filter, unit) request" where
  "view_request = \<lparr>req_user = Some bob, req_id = 20,
      req_query = no_filter\<lparr>f_customer := Some 2\<rparr>, req_body = (), req_errors = []\<rparr>"

definition reassign_request :: "(unit, ticket_patch) request" where
  "reassign_request = \<lparr>req_user = Some carol, req_id = 20, req_query = (),
      req_body = no_patch\<lparr>p_customer := Some 99\<rparr>, req_errors = []\<rparr>"

definition high_filter :: ticket_filter where
  "high_filter = no_filter\<lparr>f_priority := Some (One (lit ''high'')), f_page := Some 2,
                            f_limit := Some 1\<rparr>"

section \<open>Properties of the queue directory\<close>

lemma filter_unsetDefault: "filter q_isDefault (unsetDefault now qs) = []"
  by (induction qs) (auto simp: unsetDefault_def)

lemma set_updateOne:
  "x \<in> set (updateOne P f xs) \<Longrightarrow> x \<in> set xs \<or> (\<exists>y. find P xs = Some y \<and> x = f y)"
  by (induction xs) (auto split: if_splits)

lemma filter_updateOne_le:
  "(\<And>x. Q (f x) \<Longrightarrow> Q x) \<Longrightarrow> length (filter Q (updateOne P f xs)) \<le> length (filter Q xs)"
  by (induction xs) auto

lemma filter_updateOne_empty:
  "filter Q xs = [] \<Longrightarrow> length (filter Q (updateOne P f xs)) \<le> 1"
  by (induction xs) (auto split: if_splits)

lemma filter_deleteOne_le: "length (filter Q (deleteOne P xs)) \<le> length (filter Q xs)"
  by (induction xs) auto

lemma set_deleteOne_keeps:
  "x \<in> set xs \<Longrightarrow> find P xs = Some y \<Longrightarrow> x \<noteq> y \<Longrightarrow> x \<in> set (deleteOne P xs)"
  by (induction xs) (auto split: if_splits)

lemma find_deleteOne_distinct:
  "distinct (map f xs) \<Longrightarrow> find (\<lambda>x. f x = k) (deleteOne (\<lambda>x. f x = k) xs) = None"
proof (induction xs)
  case Nil
  then show ?case by simp
next
  case (Cons a xs)
  show ?case
  proof (cases "f a = k")
    case True
    from Cons.prems have "f a \<notin> f ` set xs" by simp
    with True have "\<forall>x\<in>set xs. f x \<noteq> k" by blast
    then have "find (\<lambda>x. f x = k) xs = None" by (simp add: find_None_iff)
    with True show ?thesis by simp
  next
    case False
    with Cons show ?thesis by simp
  qed
qed

lemma createQueue_amo:
  "at_most_one_default (db_queues s) \<Longrightarrow>
   at_most_one_default (db_queues (snd (QueueService_createQueue now qd s)))"
  by (auto simp: QueueService_createQueue_def Queue_save_def Let_def at_most_one_default_def
      filter_unsetDefault truthy_def)

lemma updateQueue_amo:
  "at_most_one_default (db_queues s) \<Longrightarrow>
   at_most_one_default (db_queues (snd (QueueService_updateQueue now qid qp s)))"
proof (cases "truthy (qp_isDefault qp)")
  case True
  have "length (filter q_isDefault (updateOne (\<lambda>r. q_id r = qid) (applyQueuePatch now qp)
      (unsetDefault now (db_queues s)))) \<le> 1"
    by (rule filter_updateOne_empty[OF filter_unsetDefault])
  with True show ?thesis
    by (auto simp: QueueService_updateQueue_def Let_def at_most_one_default_def
        filter_unsetDefault split: option.splits)
next
  case False
  assume a: "at_most_one_default (db_queues s)"
  have "\<And>x. q_isDefault (applyQueuePatch now qp x) \<Longrightarrow> q_isDefault x"
    using False by (auto simp: applyQueuePatch_def truthy_def split: option.splits)
  then have "length (filter q_isDefault (updateOne (\<lambda>r. q_id r = qid) (applyQueuePatch now qp) (db_queues s)))
      \<le> length (filter q_isDefault (db_queues s))"
    by (rule filter_updateOne_le)
  with a False show ?thesis
    by (auto simp: QueueService_updateQueue_def Let_def at_most_one_default_def
        split: option.splits)
qed

lemma deleteQueue_amo:
  "at_most_one_default (db_queues s) \<Longrightarrow>
   at_most_one_default (db_queues (snd (QueueService_deleteQueue qid s)))"
  using filter_deleteOne_le[of q_isDefault "\<lambda>r. q_id r = qid" "db_queues s"]
  by (auto simp: QueueService_deleteQueue_def at_most_one_default_def
      split: sum.splits)

lemma run_queue_ops_amo:
  "at_most_one_default (db_queues s) \<Longrightarrow> at_most_one_default (db_queues (run_queue_ops ops s))"
proof (induction ops arbitrary: s)
  case Nil
  then show ?case by simp
next
  case (Cons x xs)
  have "at_most_one_default (db_queues (run_queue_op x s))"
    using Cons.prems by (cases x) (simp_all add: createQueue_amo updateQueue_amo deleteQueue_amo)
  then show ?case using Cons.IH by simp
qed

lemma createQueue_only_default:
  "truthy (qd_isDefault qd) \<Longrightarrow> q \<in> set (db_queues (snd (QueueService_createQueue now qd s))) \<Longrightarrow>
   q_isDefault q \<Longrightarrow> fst (QueueService_createQueue now qd s) = Inr q"
  using filter_unsetDefault[of now "db_queues s"]
  by (auto simp: QueueService_createQueue_def Queue_save_def Let_def filter_empty_conv
      split: if_splits)

lemma updateQueue_only_default:
  "truthy (qp_isDefault qp) \<Longrightarrow> q \<in> set (db_queues (snd (QueueService_updateQueue now qid qp s))) \<Longrightarrow>
   q_isDefault q \<Longrightarrow> fst (QueueService_updateQueue now qid qp s) = Inr q"
  using filter_unsetDefault[of now "db_queues s"]
  by (auto simp: QueueService_updateQueue_def Let_def filter_empty_conv
      split: if_splits option.splits dest!: set_updateOne)

lemma deleteQueue_keeps_default:
  "q \<in> set (db_queues s) \<Longrightarrow> q_isDefault q \<Longrightarrow>
   q \<in> set (db_queues (snd (QueueService_deleteQueue qid s)))"
  by (auto simp: QueueService_deleteQueue_def QueueService_getQueueById_def
      split: sum.splits option.splits intro: set_deleteOne_keeps)

lemmas example_defs = high_filter_def
  alice_def bob_def carol_def dave_def support_def billing_def general_def
  note1_def ticket1_def ticket2_def ticket3_def empty_db_def example_db_def general_db_def
  dangling_db_def no_filter_def no_patch_def help_request_def sales_data_def
  resolve_patch_def reopen_patch_def backdate_patch_def

lemmas queue_defs = QueueService_createQueue_def QueueService_updateQueue_def
  QueueService_deleteQueue_def QueueService_getQueueById_def QueueService_getDefaultQueue_def
  Queue_save_def unsetDefault_def applyQueuePatch_def truthy_def trim_def isSpace_def lit_def
  at_most_one_default_def wf_db_def Let_def

lemma in_unsetDefault: "q \<in> set (unsetDefault now qs) \<Longrightarrow> \<not> q_isDefault q"
  using filter_unsetDefault[of now qs] by (auto simp: filter_empty_conv)

lemma updateOne_member:
  "find P xs = Some y \<Longrightarrow> f y \<in> set (updateOne P f xs)"
  by (induction xs) (auto split: if_splits)

lemma find_Some_holds: "find P xs = Some x \<Longrightarrow> P x"
  by (induction xs) (auto split: if_splits)

lemma createQueue_clears_others:
  assumes "truthy (qd_isDefault qd)"
    and "q \<in> set (db_queues (snd (QueueService_createQueue now qd s)))"
    and "q_id q \<noteq> db_next_id s"
  shows "\<not> q_isDefault q"
  using assms in_unsetDefault[of q now "db_queues s"]
  by (auto simp: QueueService_createQueue_def Queue_save_def Let_def split: if_splits)

lemma createQueue_new_default:
  assumes "truthy (qd_isDefault qd)" and "fst (QueueService_createQueue now qd s) = Inr n"
  shows "q_isDefault n \<and> q_id n = db_next_id s \<and>
         db_queues (snd (QueueService_createQueue now qd s))
           = unsetDefault now (db_queues s) @ [n]"
  using assms
  by (auto simp: QueueService_createQueue_def Queue_save_def Let_def split: if_splits)

lemma updateQueue_clears_others:
  assumes "truthy (qp_isDefault qp)"
    and "q \<in> set (db_queues (snd (QueueService_updateQueue now qid qp s)))"
    and "q_id q \<noteq> qid"
  shows "\<not> q_isDefault q"
proof -
  have "q \<in> set (unsetDefault now (db_queues s))"
  proof (cases "find (\<lambda>q. q_id q = qid) (unsetDefault now (db_queues s))")
    case None
    with assms(1,2) show ?thesis
      by (simp add: QueueService_updateQueue_def Let_def)
  next
    case (Some y)
    from find_Some_holds[OF Some] have "q_id (applyQueuePatch now qp y) = qid"
      by (simp add: applyQueuePatch_def)
    with assms(3) have "q \<noteq> applyQueuePatch now qp y" by auto
    with assms(1,2) Some
      set_updateOne[of q "\<lambda>r. q_id r = qid" "applyQueuePatch now qp" "unsetDefault now (db_queues s)"]
    show ?thesis
      by (auto simp: QueueService_updateQueue_def Let_def split: if_splits)
  qed
  then show ?thesis by (rule in_unsetDefault)
qed

lemma updateQueue_new_default:
  assumes "truthy (qp_isDefault qp)" and "fst (QueueService_updateQueue now qid qp s) = Inr n"
  shows "q_isDefault n \<and> q_id n = qid \<and>
         n \<in> set (db_queues (snd (QueueService_updateQueue now qid qp s)))"
proof (cases "find (\<lambda>q. q_id q = qid) (unsetDefault now (db_queues s))")
  case None
  with assms show ?thesis by (simp add: QueueService_updateQueue_def Let_def)
next
  case (Some y)
  from find_Some_holds[OF Some] have i: "q_id (applyQueuePatch now qp y) = qid"
    by (simp add: applyQueuePatch_def)
  from assms(1) have d: "q_isDefault (applyQueuePatch now qp y)"
    by (simp add: applyQueuePatch_def truthy_def)
  from updateOne_member[OF Some, of "applyQueuePatch now qp"] assms Some i d
  show ?thesis
    by (auto simp: QueueService_updateQueue_def Let_def split: if_splits)
qed

text \<open>
  Claim C4.  Starting from a store in which at most one queue is the default one, any
  sequence of createQueue, updateQueue and deleteQueue calls, run one after the other,
  ends in a store in which at most one queue is the default one.  After createQueue or
  updateQueue with \<^verbatim>\<open>isDefault = true\<close>, also when the call fails, every queue but the
  one created (the one with the fresh id) or updated (the one with the given id) has
  \<^verbatim>\<open>isDefault = false\<close>, and when the call succeeds the queue it returns is stored and
  is the default one.  deleteQueue removes no default queue.
\<close>

theorem queue_ops_keep_at_most_one_default:
  assumes "at_most_one_default (db_queues s)"
  shows "at_most_one_default (db_queues (run_queue_ops ops s)) \<and>
     (truthy (qd_isDefault qd) \<longrightarrow>
        (\<forall>q \<in> set (db_queues (snd (QueueService_createQueue now qd s))).
            q_id q \<noteq> db_next_id s \<longrightarrow> \<not> q_isDefault q) \<and>
        (\<forall>n. fst (QueueService_createQueue now qd s) = Inr n \<longrightarrow>
            q_isDefault n \<and> q_id n = db_next_id s \<and>
            db_queues (snd (QueueService_createQueue now qd s))
              = unsetDefault now (db_queues s) @ [n]) \<and>
        (\<forall>q \<in> set (db_queues (snd (QueueService_createQueue now qd s))).
            q_isDefault q \<longrightarrow> fst (QueueService_createQueue now qd s) = Inr q)) \<and>
     (truthy (qp_isDefault qp) \<longrightarrow>
        (\<forall>q \<in> set (db_queues (snd (QueueService_updateQueue now qid qp s))).
            q_id q \<noteq> qid \<longrightarrow> \<not> q_isDefault q) \<and>
        (\<forall>n. fst (QueueService_updateQueue now qid qp s) = Inr n \<longrightarrow>
            q_isDefault n \<and> q_id n = qid \<and>
            n \<in> set (db_queues (snd (QueueService_updateQueue now qid qp s)))) \<and>
        (\<forall>q \<in> set (db_queues (snd (QueueService_updateQueue now qid qp s))).
            q_isDefault q \<longrightarrow> fst (QueueService_updateQueue now qid qp s) = Inr q)) \<and>
     (\<forall>q \<in> set (db_queues s).
         q_isDefault q \<longrightarrow> q \<in> set (db_queues (snd (QueueService_deleteQueue did s))))"
proof -
  have 1: "at_most_one_default (db_queues (run_queue_ops ops s))"
    using assms by (rule run_queue_ops_amo)
  have 2: "\<forall>q \<in> set (db_queues (snd (QueueService_createQueue now qd s))).
            q_id q \<noteq> db_next_id s \<longrightarrow> \<not> q_isDefault q"
    if "truthy (qd_isDefault qd)"
    using createQueue_clears_others[OF that] by blast
  have 3: "\<forall>n. fst (QueueService_createQueue now qd s) = Inr n \<longrightarrow>
            q_isDefault n \<and> q_id n = db_next_id s \<and>
            db_queues (snd (QueueService_createQueue now qd s))
              = unsetDefault now (db_queues s) @ [n]"
    if "truthy (qd_isDefault qd)"
    using createQueue_new_default[OF that] by blast
  have 4: "\<forall>q \<in> set (db_queues (snd (QueueService_createQueue now qd s))).
            q_isDefault q \<longrightarrow> fst (QueueService_createQueue now qd s) = Inr q"
    if "truthy (qd_isDefault qd)"
    using createQueue_only_default[OF that] by blast
  have 5: "\<forall>q \<in> set (db_queues (snd (QueueService_updateQueue now qid qp s))).
            q_id q \<noteq> qid \<longrightarrow> \<not> q_isDefault q"
    if "truthy (qp_isDefault qp)"
    using updateQueue_clears_others[OF that] by blast
  have 6: "\<forall>n. fst (QueueService_updateQueue now qid qp s) = Inr n \<longrightarrow>
            q_isDefault n \<and> q_id n = qid \<and>
            n \<in> set (db_queues (snd (QueueService_updateQueue now qid qp s)))"
    if "truthy (qp_isDefault qp)"
    using updateQueue_new_default[OF that] by blast
  have 7: "\<forall>q \<in> set (db_queues (snd (QueueService_updateQueue now qid qp s))).
            q_isDefault q \<longrightarrow> fst (QueueService_updateQueue now qid qp s) = Inr q"
    if "truthy (qp_isDefault qp)"
    using updateQueue_only_default[OF that] by blast
  have 8: "\<forall>q \<in> set (db_queues s).
         q_isDefault q \<longrightarrow> q \<in> set (db_queues (snd (QueueService_deleteQueue did s)))"
    using deleteQueue_keeps_default by blast
  from 1 2 3 4 5 6 7 8 show ?thesis by blast
qed

theorem queue_ops_keep_at_most_one_default_witness:
  "at_most_one_default (db_queues example_db) \<and>
   at_most_one_default (db_queues (run_queue_ops
      [CreateQueue 40 sales_data,
       UpdateQueue 41 11 \<lparr>qp_name = None, qp_description = None, qp_isDefault = Some True\<rparr>,
       DeleteQueue 10] example_db)) \<and>
   truthy (qp_isDefault make_default) \<and> support \<in> set (db_queues example_db) \<and>
   q_isDefault support \<and>
   map (\<lambda>q. (q_id q, q_isDefault q))
     (db_queues (snd (QueueService_updateQueue 41 11 make_default example_db)))
     = [(10, False), (11, True)] \<and>
   list_all (\<lambda>q. q_id q = 11 \<or> \<not> q_isDefault q)
     (db_queues (snd (QueueService_updateQueue 41 11 make_default example_db))) \<and>
   map (\<lambda>q. (q_id q, q_isDefault q))
     (db_queues (snd (QueueService_createQueue 40 sales_data example_db)))
     = [(10, False), (11, False), (30, True)] \<and>
   support \<in> set (db_queues (snd (QueueService_deleteQueue 10 example_db)))"
proof -
  have h: "at_most_one_default (db_queues example_db)"
    by (simp add: example_defs queue_defs)
  have m: "support \<in> set (db_queues example_db)" "q_isDefault support"
    by (simp_all add: example_defs)
  have t: "truthy (qp_isDefault make_default)"
    by (simp add: make_default_def truthy_def)
  note T = queue_ops_keep_at_most_one_default[OF h,
      where ops = "[CreateQueue 40 sales_data,
         UpdateQueue 41 11 \<lparr>qp_name = None, qp_description = None, qp_isDefault = Some True\<rparr>,
         DeleteQueue 10]"
        and qd = sales_data and now = 41 and qp = make_default and qid = 11 and did = 10]
  from T have o: "at_most_one_default (db_queues (run_queue_ops
      [CreateQueue 40 sales_data,
       UpdateQueue 41 11 \<lparr>qp_name = None, qp_description = None, qp_isDefault = Some True\<rparr>,
       DeleteQueue 10] example_db))"
    by (rule conjunct1)
  from T[THEN conjunct2, THEN conjunct2, THEN conjunct2]
  have "\<forall>q \<in> set (db_queues example_db).
         q_isDefault q \<longrightarrow> q \<in> set (db_queues (snd (QueueService_deleteQueue 10 example_db)))" .
  with m have a: "support \<in> set (db_queues (snd (QueueService_deleteQueue 10 example_db)))"
    by blast
  from T[THEN conjunct2, THEN conjunct2, THEN conjunct1, THEN mp, OF t, THEN conjunct1]
  have "\<forall>q \<in> set (db_queues (snd (QueueService_updateQueue 41 11 make_default example_db))).
            q_id q \<noteq> 11 \<longrightarrow> \<not> q_isDefault q" .
  then have b: "list_all (\<lambda>q. q_id q = 11 \<or> \<not> q_isDefault q)
     (db_queues (snd (QueueService_updateQueue 41 11 make_default example_db)))"
    by (auto simp: list_all_iff)
  have c: "map (\<lambda>q. (q_id q, q_isDefault q))
     (db_queues (snd (QueueService_updateQueue 41 11 make_default example_db)))
     = [(10, False), (11, True)]"
    "map (\<lambda>q. (q_id q, q_isDefault q))
     (db_queues (snd (QueueService_createQueue 40 sales_data example_db)))
     = [(10, False), (11, False), (30, True)]"
    by (simp_all add: example_defs make_default_def queue_defs)
  from h m t o a b c show ?thesis by simp
qed

text \<open>
  Claim C8.  deleteQueue on a stored default queue fails with the message
  \<^verbatim>\<open>Cannot delete the default queue\<close>, changes nothing, and the queue can still be
  retrieved; on a stored queue that is not the default one it succeeds, and
  getQueueById then fails with \<^verbatim>\<open>Queue not found\<close>.
\<close>

theorem deleteQueue_default_refused:
  assumes "wf_db s" and "QueueService_getQueueById qid s = Inr q"
  shows "(q_isDefault q \<longrightarrow>
            QueueService_deleteQueue qid s = (Inl CannotDeleteDefaultQueue, s) \<and>
            message CannotDeleteDefaultQueue = ''Cannot delete the default queue'' \<and>
            QueueService_getQueueById qid (snd (QueueService_deleteQueue qid s)) = Inr q) \<and>
         (\<not> q_isDefault q \<longrightarrow>
            fst (QueueService_deleteQueue qid s) = Inr (True, ''Queue deleted successfully'') \<and>
            QueueService_getQueueById qid (snd (QueueService_deleteQueue qid s)) = Inl QueueNotFound \<and>
            message QueueNotFound = ''Queue not found'')"
proof -
  from assms(1) have d: "distinct (map q_id (db_queues s))" by (simp add: wf_db_def)
  show ?thesis
    using assms(2) find_deleteOne_distinct[OF d, of qid]
    by (auto simp: QueueService_deleteQueue_def QueueService_getQueueById_def
        split: option.splits)
qed

theorem deleteQueue_default_refused_witness:
  "wf_db example_db \<and>
   QueueService_getQueueById 10 example_db = Inr support \<and>
   QueueService_deleteQueue 10 example_db = (Inl CannotDeleteDefaultQueue, example_db) \<and>
   QueueService_getQueueById 10 (snd (QueueService_deleteQueue 10 example_db)) = Inr support \<and>
   QueueService_getQueueById 11 example_db = Inr billing \<and>
   fst (QueueService_deleteQueue 11 example_db) = Inr (True, ''Queue deleted successfully'') \<and>
   QueueService_getQueueById 11 (snd (QueueService_deleteQueue 11 example_db)) = Inl QueueNotFound"
proof -
  have w: "wf_db example_db"
    by (simp add: example_defs wf_db_def)
  have g1: "QueueService_getQueueById 10 example_db = Inr support"
    by (simp add: example_defs QueueService_getQueueById_def)
  have g2: "QueueService_getQueueById 11 example_db = Inr billing"
    by (simp add: example_defs QueueService_getQueueById_def)
  have d1: "q_isDefault support" and d2: "\<not> q_isDefault billing"
    by (simp_all add: example_defs)
  from deleteQueue_default_refused[OF w g1] d1
    deleteQueue_default_refused[OF w g2] d2 w g1 g2
  show ?thesis by blast
qed

section \<open>Properties of ticket creation\<close>

lemma find_append_other:
  "\<forall>x\<in>set xs. f x \<noteq> k \<Longrightarrow>
   find (\<lambda>x. f x = k) (xs @ [t]) = (if f t = k then Some t else None)"
  by (induction xs) auto

lemma find_distinct_member:
  "distinct (map f xs) \<Longrightarrow> x \<in> set xs \<Longrightarrow> find (\<lambda>y. f y = f x) xs = Some x"
proof (induction xs)
  case Nil
  then show ?case by simp
next
  case (Cons a xs)
  show ?case
  proof (cases "a = x")
    case True
    then show ?thesis by simp
  next
    case False
    with Cons.prems have m: "x \<in> set xs" by simp
    from Cons.prems have "f a \<notin> f ` set xs" by simp
    with m have "f a \<noteq> f x" by blast
    with Cons m show ?thesis by simp
  qed
qed

lemma find_Some_member: "find P xs = Some x \<Longrightarrow> x \<in> set xs \<and> P x"
  by (induction xs) (auto split: if_splits)

lemma list_all_less_neq: "list_all (\<lambda>x. f x < (n::nat)) xs \<Longrightarrow> \<forall>x\<in>set xs. f x \<noteq> n"
  by (auto simp: list_all_iff)

lemma Queue_save_tickets:
  "db_tickets (snd (Queue_save now qd s)) = db_tickets s \<and>
   db_users (snd (Queue_save now qd s)) = db_users s \<and>
   db_next_id s \<le> db_next_id (snd (Queue_save now qd s))"
  by (simp add: Queue_save_def Let_def)

lemma createQueue_tickets:
  "db_tickets (snd (QueueService_createQueue now qd s)) = db_tickets s \<and>
   db_users (snd (QueueService_createQueue now qd s)) = db_users s \<and>
   db_next_id s \<le> db_next_id (snd (QueueService_createQueue now qd s))"
  using Queue_save_tickets[of now qd "s\<lparr>db_queues := unsetDefault now (db_queues s)\<rparr>"]
    Queue_save_tickets[of now qd s]
  by (simp add: QueueService_createQueue_def)

lemma createTicket_queue_tickets:
  "db_tickets (snd (createTicket_queue now td s)) = db_tickets s \<and>
   db_users (snd (createTicket_queue now td s)) = db_users s \<and>
   db_next_id s \<le> db_next_id (snd (createTicket_queue now td s))"
  using createQueue_tickets[of now generalQueue s]
  by (auto simp: createTicket_queue_def split: option.splits sum.splits prod.splits)

lemma Ticket_save_Inr:
  assumes "Ticket_save now td qo s1 = (Inr t, s2)"
  shows "t_id t = db_next_id s1 \<and> db_tickets s2 = db_tickets s1 @ [t] \<and>
         db_queues s2 = db_queues s1 \<and> db_users s2 = db_users s1 \<and>
         qo = Some (t_queue t) \<and>
         t_status t = New \<and> t_comments t = [] \<and> t_assignee t = None \<and>
         t_resolvedAt t = None \<and> t_closedAt t = None"
  using assms by (auto simp: Ticket_save_def Let_def split: option.splits if_splits)

lemma Ticket_save_Inl:
  assumes "Ticket_save now td qo s1 = (Inl e, s2)"
  shows "s2 = s1"
  using assms by (auto simp: Ticket_save_def Let_def split: option.splits if_splits)

lemma Ticket_save_valid:
  assumes "trim (td_title td) \<noteq> []" and "td_description td \<noteq> []"
  shows "\<exists>t s2. Ticket_save now td (Some qid) s1 = (Inr t, s2)"
  using assms by (simp add: Ticket_save_def Let_def)

lemma createTicket_unfold:
  assumes "wf_db s"
  shows "TicketService_createTicket now td s =
     (case createTicket_queue now td s of
        (Inl e, s1) \<Rightarrow> (Inl e, s1)
      | (Inr qo, s1) \<Rightarrow>
          (case Ticket_save now td qo s1 of
             (Inl e, s2) \<Rightarrow> (Inl e, s2)
           | (Inr t, s2) \<Rightarrow> (Inr (populateTicket True s2 t), s2)))"
proof -
  have "TicketService_getTicketById (t_id t) s2 = Inr (populateTicket True s2 t)"
    if q: "createTicket_queue now td s = (Inr qo, s1)"
      and t: "Ticket_save now td qo s1 = (Inr t, s2)" for qo s1 t s2
  proof -
    from createTicket_queue_tickets[of now td s] q
    have a: "db_tickets s1 = db_tickets s" "db_next_id s \<le> db_next_id s1" by simp_all
    from assms have "list_all (\<lambda>t. t_id t < db_next_id s) (db_tickets s)"
      by (simp add: wf_db_def)
    with a have "list_all (\<lambda>t. t_id t < db_next_id s1) (db_tickets s1)"
      by (auto simp: list_all_iff)
    then have "\<forall>x\<in>set (db_tickets s1). t_id x \<noteq> db_next_id s1"
      by (rule list_all_less_neq)
    with Ticket_save_Inr[OF t] show ?thesis
      by (simp add: TicketService_getTicketById_def find_append_other)
  qed
  then show ?thesis
    by (auto simp: TicketService_createTicket_def split: prod.splits sum.splits)
qed

text \<open>
  Claim C10.  Whatever the arguments, a ticket returned by a successful createTicket
  has status \<^verbatim>\<open>new\<close>, no comments, no assignee and neither \<^verbatim>\<open>resolvedAt\<close> nor
  \<^verbatim>\<open>closedAt\<close>; it is the populated view of the one ticket the call stored.
\<close>

theorem createTicket_initial_fields:
  assumes "wf_db s" and "TicketService_createTicket now td s = (Inr v, s')"
  shows "tv_status v = New \<and> tv_comments v = [] \<and> tv_assignee v = None \<and>
         tv_resolvedAt v = None \<and> tv_closedAt v = None \<and>
         (\<exists>t. db_tickets s' = db_tickets s @ [t] \<and> v = populateTicket True s' t \<and>
              t_status t = New \<and> t_comments t = [] \<and> t_assignee t = None \<and>
              t_resolvedAt t = None \<and> t_closedAt t = None)"
proof -
  from assms(2) createTicket_unfold[OF assms(1), of now td]
  obtain qo s1 t where q: "createTicket_queue now td s = (Inr qo, s1)"
    and t: "Ticket_save now td qo s1 = (Inr t, s')" and v: "v = populateTicket True s' t"
    by (auto split: prod.splits sum.splits)
  from createTicket_queue_tickets[of now td s] q have "db_tickets s1 = db_tickets s" by simp
  with Ticket_save_Inr[OF t] v show ?thesis
    by (auto simp: populateTicket_def)
qed

lemmas ticket_defs = TicketService_createTicket_def createTicket_queue_def generalQueue_def
  Ticket_save_def TicketService_getTicketById_def TicketService_updateTicket_def
  statusTransition_def applyTicketPatch_def TicketService_addComment_def pushComment_def
  TicketService_assignTicket_def castStatus_def
  populateTicket_def populateUser_def populateQueue_def populateComment_def

theorem createTicket_initial_fields_witness:
  "wf_db example_db \<and>
   (case fst (TicketService_createTicket 50
        \<lparr>td_title = lit ''Mouse'', td_description = lit ''Mouse is stuck'', td_priority = Some Urgent,
         td_customer = 2, td_queue = Some 11, td_tags = Some [lit ''hardware'']\<rparr> example_db) of
      Inl e \<Rightarrow> False
    | Inr v \<Rightarrow> tv_status v = New \<and> tv_comments v = [] \<and> tv_assignee v = None \<and>
               tv_resolvedAt v = None \<and> tv_closedAt v = None)"
proof -
  have w: "wf_db example_db"
    by (simp add: example_defs wf_db_def)
  obtain v s' where e: "TicketService_createTicket 50
        \<lparr>td_title = lit ''Mouse'', td_description = lit ''Mouse is stuck'', td_priority = Some Urgent,
         td_customer = 2, td_queue = Some 11, td_tags = Some [lit ''hardware'']\<rparr> example_db = (Inr v, s')"
    by (simp add: example_defs ticket_defs queue_defs)
  from createTicket_initial_fields[OF w e] e w show ?thesis by simp
qed

lemma unsetDefault_none: "\<not> list_ex q_isDefault qs \<Longrightarrow> unsetDefault now qs = qs"
  by (induction qs) (auto simp: unsetDefault_def)

lemma find_None_list_ex: "\<not> list_ex P xs \<Longrightarrow> find P xs = None"
  by (simp add: find_None_iff list_ex_iff)

lemma trim_General: "trim (lit ''General'') = lit ''General''"
  by (simp add: trim_def isSpace_def lit_def)

lemma General_not_empty: "lit ''General'' \<noteq> []"
  by (simp add: lit_def)

lemma createTicket_with_default:
  assumes w: "wf_db s" and n: "td_queue td = None"
    and v: "trim (td_title td) \<noteq> []" "td_description td \<noteq> []"
    and d: "QueueService_getDefaultQueue s = Inr dq"
  shows "\<exists>t s'. TicketService_createTicket now td s = (Inr (populateTicket True s' t), s') \<and>
          db_queues s' = db_queues s \<and> db_tickets s' = db_tickets s @ [t] \<and>
          t_queue t = q_id dq \<and> q_isDefault dq \<and> dq \<in> set (db_queues s) \<and>
          tv_queue (populateTicket True s' t) = Some \<lparr>qr_id = q_id dq, qr_name = q_name dq\<rparr>"
proof -
  from d have f: "find q_isDefault (db_queues s) = Some dq"
    by (simp add: QueueService_getDefaultQueue_def split: option.splits)
  then have m: "dq \<in> set (db_queues s)" "q_isDefault dq"
    using find_Some_member by fastforce+
  from n d have q: "createTicket_queue now td s = (Inr (Some (q_id dq)), s)"
    by (simp add: createTicket_queue_def)
  from Ticket_save_valid[OF v, of now "q_id dq" s]
  obtain t s' where t: "Ticket_save now td (Some (q_id dq)) s = (Inr t, s')" by blast
  from w have "distinct (map q_id (db_queues s))" by (simp add: wf_db_def)
  from find_distinct_member[OF this m(1)] Ticket_save_Inr[OF t]
  have "tv_queue (populateTicket True s' t) = Some \<lparr>qr_id = q_id dq, qr_name = q_name dq\<rparr>"
    by (simp add: populateTicket_def populateQueue_def)
  with createTicket_unfold[OF w, of now td] q t Ticket_save_Inr[OF t] m show ?thesis
    by simp
qed

lemma createTicket_without_default:
  assumes w: "wf_db s" and n: "td_queue td = None"
    and v: "trim (td_title td) \<noteq> []" "td_description td \<noteq> []"
    and d: "\<not> list_ex q_isDefault (db_queues s)"
    and g: "\<not> list_ex (\<lambda>q. q_name q = lit ''General'') (db_queues s)"
  shows "\<exists>g t s'. TicketService_createTicket now td s = (Inr (populateTicket True s' t), s') \<and>
          db_queues s' = db_queues s @ [g] \<and> q_name g = lit ''General'' \<and> q_isDefault g \<and>
          db_tickets s' = db_tickets s @ [t] \<and> t_queue t = q_id g \<and>
          tv_queue (populateTicket True s' t) = Some \<lparr>qr_id = q_id g, qr_name = lit ''General''\<rparr>"
proof -
  define gq where "gq = \<lparr>q_id = db_next_id s, q_name = lit ''General'',
      q_description = map_option trim (Some (lit ''Default queue for all tickets'')),
      q_isDefault = True, q_createdAt = now, q_updatedAt = now\<rparr>"
  define s1 where "s1 = s\<lparr>db_queues := db_queues s @ [gq], db_next_id := Suc (db_next_id s)\<rparr>"
  have c: "QueueService_createQueue now generalQueue s = (Inr gq, s1)"
    using d g
    by (simp add: QueueService_createQueue_def Queue_save_def generalQueue_def truthy_def
        unsetDefault_none trim_General General_not_empty gq_def s1_def Let_def)
  from d have "QueueService_getDefaultQueue s = Inl NoDefaultQueue"
    by (simp add: QueueService_getDefaultQueue_def find_None_list_ex)
  with n c have q: "createTicket_queue now td s = (Inr (Some (q_id gq)), s1)"
    by (simp add: createTicket_queue_def)
  from Ticket_save_valid[OF v, of now "q_id gq" s1]
  obtain t s' where t: "Ticket_save now td (Some (q_id gq)) s1 = (Inr t, s')" by blast
  from w have "list_all (\<lambda>q. q_id q < db_next_id s) (db_queues s)" by (simp add: wf_db_def)
  then have "\<forall>x\<in>set (db_queues s). q_id x \<noteq> db_next_id s" by (rule list_all_less_neq)
  then have "find (\<lambda>x. q_id x = db_next_id s) (db_queues s @ [gq]) = Some gq"
    by (simp add: find_append_other gq_def)
  with Ticket_save_Inr[OF t]
  have p: "tv_queue (populateTicket True s' t) = Some \<lparr>qr_id = q_id gq, qr_name = lit ''General''\<rparr>"
    by (simp add: populateTicket_def populateQueue_def s1_def gq_def)
  have "TicketService_createTicket now td s = (Inr (populateTicket True s' t), s')"
    using createTicket_unfold[OF w, of now td] q t by simp
  moreover have "db_queues s' = db_queues s @ [gq]" "db_tickets s' = db_tickets s @ [t]"
    "t_queue t = q_id gq"
    using Ticket_save_Inr[OF t] by (simp_all add: s1_def)
  moreover have "q_name gq = lit ''General''" "q_isDefault gq" by (simp_all add: gq_def)
  ultimately show ?thesis using p by blast
qed

lemma createTicket_queues:
  "db_queues (snd (TicketService_createTicket now td s))
     = db_queues (snd (createTicket_queue now td s))"
  by (auto simp: TicketService_createTicket_def split: prod.splits sum.splits
      dest: Ticket_save_Inr Ticket_save_Inl)

lemma createTicket_queues_with_default:
  assumes "td_queue td = None" and "QueueService_getDefaultQueue s = Inr dq"
  shows "q_isDefault dq \<and> dq \<in> set (db_queues s) \<and>
         db_queues (snd (TicketService_createTicket now td s)) = db_queues s"
proof -
  from assms(2) have "find q_isDefault (db_queues s) = Some dq"
    by (simp add: QueueService_getDefaultQueue_def split: option.splits)
  then have "dq \<in> set (db_queues s)" "q_isDefault dq"
    using find_Some_member by fastforce+
  moreover from assms have "createTicket_queue now td s = (Inr (Some (q_id dq)), s)"
    by (simp add: createTicket_queue_def)
  ultimately show ?thesis by (simp add: createTicket_queues)
qed

lemma createTicket_queues_without_default:
  assumes "td_queue td = None" and "\<not> list_ex q_isDefault (db_queues s)"
    and "\<not> list_ex (\<lambda>q. q_name q = lit ''General'') (db_queues s)"
  shows "\<exists>g. db_queues (snd (TicketService_createTicket now td s)) = db_queues s @ [g] \<and>
             q_name g = lit ''General'' \<and> q_isDefault g"
proof -
  from assms(2) have "QueueService_getDefaultQueue s = Inl NoDefaultQueue"
    by (simp add: QueueService_getDefaultQueue_def find_None_list_ex)
  with assms
  have "\<exists>g. db_queues (snd (createTicket_queue now td s)) = db_queues s @ [g] \<and>
             q_name g = lit ''General'' \<and> q_isDefault g"
    by (simp add: createTicket_queue_def QueueService_createQueue_def Queue_save_def
        generalQueue_def truthy_def unsetDefault_none trim_General General_not_empty Let_def)
  then show ?thesis by (simp add: createTicket_queues)
qed

text \<open>
  What createTicket does by design when the call names no queue: when a default queue
  exists, the queues are unchanged and the ticket, once stored, has that queue; when no
  default queue exists and no queue is named General, exactly one queue is added, it is
  named General and is the default one, and the ticket, once stored, has it.  The ticket
  is stored when the schema accepts its title and description.
\<close>

lemma createTicket_without_queue:
  assumes "wf_db s" and "td_queue td = None"
  shows
   "(\<forall>dq. QueueService_getDefaultQueue s = Inr dq \<longrightarrow>
       q_isDefault dq \<and> dq \<in> set (db_queues s) \<and>
       db_queues (snd (TicketService_createTicket now td s)) = db_queues s \<and>
       (trim (td_title td) \<noteq> [] \<and> td_description td \<noteq> [] \<longrightarrow>
          (\<exists>t s'. TicketService_createTicket now td s = (Inr (populateTicket True s' t), s') \<and>
             db_tickets s' = db_tickets s @ [t] \<and> t_queue t = q_id dq \<and>
             tv_queue (populateTicket True s' t)
               = Some \<lparr>qr_id = q_id dq, qr_name = q_name dq\<rparr>))) \<and>
    (\<not> list_ex q_isDefault (db_queues s) \<and>
     \<not> list_ex (\<lambda>q. q_name q = lit ''General'') (db_queues s) \<longrightarrow>
       (\<exists>g. db_queues (snd (TicketService_createTicket now td s)) = db_queues s @ [g] \<and>
            q_name g = lit ''General'' \<and> q_isDefault g \<and>
            (trim (td_title td) \<noteq> [] \<and> td_description td \<noteq> [] \<longrightarrow>
               (\<exists>t s'. TicketService_createTicket now td s
                          = (Inr (populateTicket True s' t), s') \<and>
                  db_tickets s' = db_tickets s @ [t] \<and> t_queue t = q_id g \<and>
                  tv_queue (populateTicket True s' t)
                    = Some \<lparr>qr_id = q_id g, qr_name = lit ''General''\<rparr>))))"
proof (rule conjI)
  show "\<forall>dq. QueueService_getDefaultQueue s = Inr dq \<longrightarrow>
       q_isDefault dq \<and> dq \<in> set (db_queues s) \<and>
       db_queues (snd (TicketService_createTicket now td s)) = db_queues s \<and>
       (trim (td_title td) \<noteq> [] \<and> td_description td \<noteq> [] \<longrightarrow>
          (\<exists>t s'. TicketService_createTicket now td s = (Inr (populateTicket True s' t), s') \<and>
             db_tickets s' = db_tickets s @ [t] \<and> t_queue t = q_id dq \<and>
             tv_queue (populateTicket True s' t)
               = Some \<lparr>qr_id = q_id dq, qr_name = q_name dq\<rparr>))"
  proof (rule allI, rule impI)
    fix dq
    assume d: "QueueService_getDefaultQueue s = Inr dq"
    from createTicket_queues_with_default[where s = s and td = td and now = now and dq = dq]
      assms(2) d
    have q: "q_isDefault dq \<and> dq \<in> set (db_queues s) \<and>
         db_queues (snd (TicketService_createTicket now td s)) = db_queues s" by blast
    have "\<exists>t s'. TicketService_createTicket now td s = (Inr (populateTicket True s' t), s') \<and>
             db_tickets s' = db_tickets s @ [t] \<and> t_queue t = q_id dq \<and>
             tv_queue (populateTicket True s' t)
               = Some \<lparr>qr_id = q_id dq, qr_name = q_name dq\<rparr>"
      if "trim (td_title td) \<noteq> [] \<and> td_description td \<noteq> []"
      using createTicket_with_default[where s = s and td = td and now = now and dq = dq]
        assms that d by blast
    with q show "q_isDefault dq \<and> dq \<in> set (db_queues s) \<and>
       db_queues (snd (TicketService_createTicket now td s)) = db_queues s \<and>
       (trim (td_title td) \<noteq> [] \<and> td_description td \<noteq> [] \<longrightarrow>
          (\<exists>t s'. TicketService_createTicket now td s = (Inr (populateTicket True s' t), s') \<and>
             db_tickets s' = db_tickets s @ [t] \<and> t_queue t = q_id dq \<and>
             tv_queue (populateTicket True s' t)
               = Some \<lparr>qr_id = q_id dq, qr_name = q_name dq\<rparr>))"
      by blast
  qed
next
  show "\<not> list_ex q_isDefault (db_queues s) \<and>
     \<not> list_ex (\<lambda>q. q_name q = lit ''General'') (db_queues s) \<longrightarrow>
       (\<exists>g. db_queues (snd (TicketService_createTicket now td s)) = db_queues s @ [g] \<and>
            q_name g = lit ''General'' \<and> q_isDefault g \<and>
            (trim (td_title td) \<noteq> [] \<and> td_description td \<noteq> [] \<longrightarrow>
               (\<exists>t s'. TicketService_createTicket now td s
                          = (Inr (populateTicket True s' t), s') \<and>
                  db_tickets s' = db_tickets s @ [t] \<and> t_queue t = q_id g \<and>
                  tv_queue (populateTicket True s' t)
                    = Some \<lparr>qr_id = q_id g, qr_name = lit ''General''\<rparr>)))"
  proof (rule impI)
    assume n: "\<not> list_ex q_isDefault (db_queues s) \<and>
       \<not> list_ex (\<lambda>q. q_name q = lit ''General'') (db_queues s)"
    from createTicket_queues_without_default[where s = s and td = td and now = now] assms(2) n
    obtain g where g: "db_queues (snd (TicketService_createTicket now td s)) = db_queues s @ [g]"
      "q_name g = lit ''General''" "q_isDefault g" by blast
    have "\<exists>t s'. TicketService_createTicket now td s = (Inr (populateTicket True s' t), s') \<and>
                  db_tickets s' = db_tickets s @ [t] \<and> t_queue t = q_id g \<and>
                  tv_queue (populateTicket True s' t)
                    = Some \<lparr>qr_id = q_id g, qr_name = lit ''General''\<rparr>"
      if v: "trim (td_title td) \<noteq> [] \<and> td_description td \<noteq> []"
    proof -
      from createTicket_without_default[where s = s and td = td and now = now] assms v n
      obtain g' t s' where c: "TicketService_createTicket now td s = (Inr (populateTicket True s' t), s')"
        "db_queues s' = db_queues s @ [g']" "db_tickets s' = db_tickets s @ [t]"
        "t_queue t = q_id g'"
        "tv_queue (populateTicket True s' t) = Some \<lparr>qr_id = q_id g', qr_name = lit ''General''\<rparr>"
        by blast
      from c(1,2) g(1) have "g' = g" by simp
      with c show ?thesis by blast
    qed
    with g show "\<exists>g. db_queues (snd (TicketService_createTicket now td s)) = db_queues s @ [g] \<and>
            q_name g = lit ''General'' \<and> q_isDefault g \<and>
            (trim (td_title td) \<noteq> [] \<and> td_description td \<noteq> [] \<longrightarrow>
               (\<exists>t s'. TicketService_createTicket now td s
                          = (Inr (populateTicket True s' t), s') \<and>
                  db_tickets s' = db_tickets s @ [t] \<and> t_queue t = q_id g \<and>
                  tv_queue (populateTicket True s' t)
                    = Some \<lparr>qr_id = q_id g, qr_name = lit ''General''\<rparr>))"
      by blast
  qed
qed

lemma createTicket_without_queue_witness:
  "wf_db example_db \<and> td_queue help_request = None \<and>
   trim (td_title help_request) \<noteq> [] \<and> td_description help_request \<noteq> [] \<and>
   QueueService_getDefaultQueue example_db = Inr support \<and>
   db_queues (snd (TicketService_createTicket 50 help_request example_db)) = db_queues example_db \<and>
   map_option tv_queue (returned (fst (TicketService_createTicket 50 help_request example_db)))
     = Some (Some \<lparr>qr_id = 10, qr_name = lit ''Support''\<rparr>) \<and>
   wf_db empty_db \<and> \<not> list_ex q_isDefault (db_queues empty_db) \<and>
   \<not> list_ex (\<lambda>q. q_name q = lit ''General'') (db_queues empty_db) \<and>
   (\<exists>g. db_queues (snd (TicketService_createTicket 50 help_request empty_db)) = [g] \<and>
        q_name g = lit ''General'' \<and> q_isDefault g \<and>
        map_option tv_queue (returned (fst (TicketService_createTicket 50 help_request empty_db)))
          = Some (Some \<lparr>qr_id = q_id g, qr_name = lit ''General''\<rparr>))"
proof -
  have w: "wf_db example_db" by (simp add: example_defs wf_db_def)
  have w0: "wf_db empty_db" by (simp add: example_defs wf_db_def)
  have n: "td_queue help_request = None" by (simp add: example_defs)
  have v: "trim (td_title help_request) \<noteq> []" "td_description help_request \<noteq> []"
    by (simp_all add: example_defs trim_def isSpace_def lit_def)
  have d: "QueueService_getDefaultQueue example_db = Inr support"
    by (simp add: example_defs QueueService_getDefaultQueue_def)
  have e: "\<not> list_ex q_isDefault (db_queues empty_db)"
    "\<not> list_ex (\<lambda>q. q_name q = lit ''General'') (db_queues empty_db)"
    by (simp_all add: example_defs)
  have q: "q_id support = 10" "q_name support = lit ''Support''" "db_queues empty_db = []"
    by (simp_all add: example_defs)
  from createTicket_without_queue[OF w n, of 50] v d q
  have a: "db_queues (snd (TicketService_createTicket 50 help_request example_db)) = db_queues example_db \<and>
   map_option tv_queue (returned (fst (TicketService_createTicket 50 help_request example_db)))
     = Some (Some \<lparr>qr_id = 10, qr_name = lit ''Support''\<rparr>)"
    by (auto simp: returned_def)
  from createTicket_without_queue[OF w0 n, of 50] v e q
  have b: "\<exists>g. db_queues (snd (TicketService_createTicket 50 help_request empty_db)) = [g] \<and>
        q_name g = lit ''General'' \<and> q_isDefault g \<and>
        map_option tv_queue (returned (fst (TicketService_createTicket 50 help_request empty_db)))
          = Some (Some \<lparr>qr_id = q_id g, qr_name = lit ''General''\<rparr>)"
    by (auto simp: returned_def)
  from w w0 n v d e a b show ?thesis by blast
qed

text \<open>
  Claim C1 does not hold of the code.  In a store where no queue is the default one and
  a queue named General exists, createTicket with no queue finds no default queue and
  falls back to creating General; the unique index on the name rejects it, the call
  throws, and neither a queue nor a ticket is stored.  The claim, and the comment in the
  source (``If no default queue exists, create a general queue and set it as default''),
  ask for a default queue General and a ticket in it.  The second part reaches such a
  store from the empty one through the services alone (a first ticket creates General, a
  new default queue Sales takes the flag from it, an update takes the flag from Sales).
\<close>

theorem createTicket_throws_when_General_exists:
  "td_queue help_request = None \<and>
   \<not> list_ex q_isDefault (db_queues general_db) \<and>
   TicketService_createTicket 50 help_request general_db = (Inl DuplicateKey, general_db) \<and>
   \<not> list_ex q_isDefault (db_queues
       (run_queue_ops [CreateQueue 2 sales_data,
                       UpdateQueue 3 12 \<lparr>qp_name = None, qp_description = None, qp_isDefault = Some False\<rparr>]
          (snd (TicketService_createTicket 1 help_request empty_db)))) \<and>
   fst (TicketService_createTicket 4 help_request
       (run_queue_ops [CreateQueue 2 sales_data,
                       UpdateQueue 3 12 \<lparr>qp_name = None, qp_description = None, qp_isDefault = Some False\<rparr>]
          (snd (TicketService_createTicket 1 help_request empty_db)))) = Inl DuplicateKey"
  by (simp add: example_defs ticket_defs queue_defs)

text \<open>A title of white space only, here a no-break space, is rejected by the schema.\<close>

lemma createTicket_blank_title_rejected:
  "TicketService_createTicket 50 (help_request\<lparr>td_title := [0xA0]\<rparr>) example_db
     = (Inl ValidationError, example_db)"
  by (simp add: example_defs ticket_defs queue_defs)

section \<open>Properties of ticket updates\<close>

lemma find_updateOne:
  "find P xs = Some x \<Longrightarrow> P (f x) \<Longrightarrow> find P (updateOne P f xs) = Some (f x)"
  by (induction xs) (auto split: if_splits)

lemma applyTicketPatch_id: "t_id (applyTicketPatch now p t) = t_id t"
  by (simp add: applyTicketPatch_def)

lemma statusTransition_found:
  assumes "Ticket_findById tid s = Some t"
  shows "\<exists>p'. statusTransition now tid (p\<lparr>p_comments := None\<rparr>) s = Inr p' \<and>
     p_status p' = p_status p \<and>
     p_resolvedAt p' = (if p_status p = Some Resolved \<and> t_status t \<noteq> Resolved then Some now
                        else p_resolvedAt p) \<and>
     p_closedAt p' = (if p_status p = Some Closed \<and> t_status t \<noteq> Closed then Some now
                      else p_closedAt p)"
  using assms
  by (auto simp: statusTransition_def Ticket_findById_def Let_def split: option.splits)

lemma updateTicket_found:
  assumes f: "Ticket_findById tid s = Some t"
  shows "\<exists>t'. fst (TicketService_updateTicket now tid p s)
            = Inr (populateTicket True (snd (TicketService_updateTicket now tid p s)) t') \<and>
     Ticket_findById tid (snd (TicketService_updateTicket now tid p s)) = Some t' \<and>
     t_status t' = (case p_status p of None \<Rightarrow> t_status t | Some st \<Rightarrow> st) \<and>
     t_resolvedAt t' =
       (if p_status p = Some Resolved \<and> t_status t \<noteq> Resolved then Some now
        else case p_resolvedAt p of None \<Rightarrow> t_resolvedAt t | Some x \<Rightarrow> Some x) \<and>
     t_closedAt t' =
       (if p_status p = Some Closed \<and> t_status t \<noteq> Closed then Some now
        else case p_closedAt p of None \<Rightarrow> t_closedAt t | Some x \<Rightarrow> Some x)"
proof -
  from statusTransition_found[OF f, of now p]
  obtain p' where p': "statusTransition now tid (p\<lparr>p_comments := None\<rparr>) s = Inr p'"
    "p_status p' = p_status p"
    "p_resolvedAt p' = (if p_status p = Some Resolved \<and> t_status t \<noteq> Resolved then Some now
                        else p_resolvedAt p)"
    "p_closedAt p' = (if p_status p = Some Closed \<and> t_status t \<noteq> Closed then Some now
                      else p_closedAt p)"
    by blast
  from f have f': "find (\<lambda>t. t_id t = tid) (db_tickets s) = Some t"
    by (simp add: Ticket_findById_def)
  then have "t_id t = tid" using find_Some_member by fastforce
  then have "t_id (applyTicketPatch now p' t) = tid" by (simp add: applyTicketPatch_id)
  with f' find_updateOne[where P = "\<lambda>t. t_id t = tid" and f = "applyTicketPatch now p'"
      and xs = "db_tickets s" and x = t]
  have u: "find (\<lambda>t. t_id t = tid)
     (updateOne (\<lambda>t. t_id t = tid) (applyTicketPatch now p') (db_tickets s))
      = Some (applyTicketPatch now p' t)" by blast
  have r: "TicketService_updateTicket now tid p s =
     (Inr (populateTicket True
            (s\<lparr>db_tickets := updateOne (\<lambda>t. t_id t = tid) (applyTicketPatch now p') (db_tickets s)\<rparr>)
            (applyTicketPatch now p' t)),
      s\<lparr>db_tickets := updateOne (\<lambda>t. t_id t = tid) (applyTicketPatch now p') (db_tickets s)\<rparr>)"
    using p'(1) f' by (simp add: TicketService_updateTicket_def Let_def)
  have "t_status (applyTicketPatch now p' t) = (case p_status p of None \<Rightarrow> t_status t | Some st \<Rightarrow> st)"
    "t_resolvedAt (applyTicketPatch now p' t) =
       (if p_status p = Some Resolved \<and> t_status t \<noteq> Resolved then Some now
        else case p_resolvedAt p of None \<Rightarrow> t_resolvedAt t | Some x \<Rightarrow> Some x)"
    "t_closedAt (applyTicketPatch now p' t) =
       (if p_status p = Some Closed \<and> t_status t \<noteq> Closed then Some now
        else case p_closedAt p of None \<Rightarrow> t_closedAt t | Some x \<Rightarrow> Some x)"
    using p'(2,3,4) by (simp_all add: applyTicketPatch_def)
  with r u show ?thesis by (simp add: Ticket_findById_def)
qed

lemma updateTicket_reenter_resolved:
  assumes f: "Ticket_findById tid s = Some t"
    and 2: "p_status p2 = Some st" "st \<noteq> Resolved" and 3: "p_status p3 = Some Resolved"
  shows "\<exists>t3. Ticket_findById tid
      (snd (TicketService_updateTicket n3 tid p3
        (snd (TicketService_updateTicket n2 tid p2 s)))) = Some t3 \<and>
      t_status t3 = Resolved \<and> t_resolvedAt t3 = Some n3"
proof -
  from updateTicket_found[OF f, of n2 p2] 2
  obtain t2 where t2: "Ticket_findById tid (snd (TicketService_updateTicket n2 tid p2 s)) = Some t2"
    "t_status t2 \<noteq> Resolved" by auto
  from updateTicket_found[OF t2(1), of n3 p3] 3 t2(2) show ?thesis by auto
qed

lemma updateTicket_reenter_closed:
  assumes f: "Ticket_findById tid s = Some t"
    and 2: "p_status p2 = Some st" "st \<noteq> Closed" and 3: "p_status p3 = Some Closed"
  shows "\<exists>t3. Ticket_findById tid
      (snd (TicketService_updateTicket n3 tid p3
        (snd (TicketService_updateTicket n2 tid p2 s)))) = Some t3 \<and>
      t_status t3 = Closed \<and> t_closedAt t3 = Some n3"
proof -
  from updateTicket_found[OF f, of n2 p2] 2
  obtain t2 where t2: "Ticket_findById tid (snd (TicketService_updateTicket n2 tid p2 s)) = Some t2"
    "t_status t2 \<noteq> Closed" by auto
  from updateTicket_found[OF t2(1), of n3 p3] 3 t2(2) show ?thesis by auto
qed

text \<open>
  Claim C3, as amended.  For a stored ticket, updateTicket with status \<^verbatim>\<open>resolved\<close>
  sets \<^verbatim>\<open>resolvedAt\<close> to the current time when the status before was not
  \<^verbatim>\<open>resolved\<close>; when it was, \<^verbatim>\<open>resolvedAt\<close> keeps its value provided the patch
  carries no \<^verbatim>\<open>resolvedAt\<close> of its own.  After an update to any other status, a
  further update to \<^verbatim>\<open>resolved\<close> sets \<^verbatim>\<open>resolvedAt\<close> to the time of that further
  update.  The same holds for \<^verbatim>\<open>closed\<close> and \<^verbatim>\<open>closedAt\<close>.
\<close>

theorem updateTicket_status_timestamps:
  assumes "Ticket_findById tid s = Some t"
  shows
   "(\<exists>t'. fst (TicketService_updateTicket now tid p s)
             = Inr (populateTicket True (snd (TicketService_updateTicket now tid p s)) t') \<and>
        Ticket_findById tid (snd (TicketService_updateTicket now tid p s)) = Some t' \<and>
        (p_status p = Some Resolved \<and> t_status t \<noteq> Resolved \<longrightarrow>
           t_status t' = Resolved \<and> t_resolvedAt t' = Some now) \<and>
        (p_status p = Some Resolved \<and> t_status t = Resolved \<and> p_resolvedAt p = None \<longrightarrow>
           t_status t' = Resolved \<and> t_resolvedAt t' = t_resolvedAt t) \<and>
        (p_status p = Some Closed \<and> t_status t \<noteq> Closed \<longrightarrow>
           t_status t' = Closed \<and> t_closedAt t' = Some now) \<and>
        (p_status p = Some Closed \<and> t_status t = Closed \<and> p_closedAt p = None \<longrightarrow>
           t_status t' = Closed \<and> t_closedAt t' = t_closedAt t)) \<and>
    (p_status pa = Some st \<and> st \<noteq> Resolved \<and> p_status pb = Some Resolved \<longrightarrow>
       (\<exists>t3. Ticket_findById tid
           (snd (TicketService_updateTicket nb tid pb
             (snd (TicketService_updateTicket na tid pa s)))) = Some t3 \<and>
          t_status t3 = Resolved \<and> t_resolvedAt t3 = Some nb)) \<and>
    (p_status pa = Some st \<and> st \<noteq> Closed \<and> p_status pb = Some Closed \<longrightarrow>
       (\<exists>t3. Ticket_findById tid
           (snd (TicketService_updateTicket nb tid pb
             (snd (TicketService_updateTicket na tid pa s)))) = Some t3 \<and>
          t_status t3 = Closed \<and> t_closedAt t3 = Some nb))"
proof -
  from updateTicket_found[OF assms, of now p]
  have "\<exists>t'. fst (TicketService_updateTicket now tid p s)
             = Inr (populateTicket True (snd (TicketService_updateTicket now tid p s)) t') \<and>
        Ticket_findById tid (snd (TicketService_updateTicket now tid p s)) = Some t' \<and>
        (p_status p = Some Resolved \<and> t_status t \<noteq> Resolved \<longrightarrow>
           t_status t' = Resolved \<and> t_resolvedAt t' = Some now) \<and>
        (p_status p = Some Resolved \<and> t_status t = Resolved \<and> p_resolvedAt p = None \<longrightarrow>
           t_status t' = Resolved \<and> t_resolvedAt t' = t_resolvedAt t) \<and>
        (p_status p = Some Closed \<and> t_status t \<noteq> Closed \<longrightarrow>
           t_status t' = Closed \<and> t_closedAt t' = Some now) \<and>
        (p_status p = Some Closed \<and> t_status t = Closed \<and> p_closedAt p = None \<longrightarrow>
           t_status t' = Closed \<and> t_closedAt t' = t_closedAt t)"
    by (elim exE) (rule exI, auto)
  with updateTicket_reenter_resolved[OF assms, of pa st pb nb na]
    updateTicket_reenter_closed[OF assms, of pa st pb nb na]
  show ?thesis by blast
qed

theorem updateTicket_status_timestamps_witness:
  "Ticket_findById 20 example_db = Some ticket1 \<and>
   map_option t_resolvedAt (Ticket_findById 20
      (snd (TicketService_updateTicket 50 20 resolve_patch example_db))) = Some (Some 50) \<and>
   map_option t_resolvedAt (Ticket_findById 20
      (snd (TicketService_updateTicket 70 20 resolve_patch
        (snd (TicketService_updateTicket 60 20 reopen_patch example_db))))) = Some (Some 70) \<and>
   Ticket_findById 21 example_db = Some ticket2 \<and>
   map_option t_resolvedAt (Ticket_findById 21
      (snd (TicketService_updateTicket 50 21 resolve_patch example_db))) = Some (Some 9)"
proof -
  have f1: "Ticket_findById 20 example_db = Some ticket1"
    and f2: "Ticket_findById 21 example_db = Some ticket2"
    by (simp_all add: example_defs Ticket_findById_def)
  have p: "p_status resolve_patch = Some Resolved" "p_resolvedAt resolve_patch = None"
    "p_status reopen_patch = Some Open"
    by (simp_all add: example_defs)
  have t: "t_status ticket1 = New" "t_status ticket2 = Resolved" "t_resolvedAt ticket2 = Some 9"
    by (simp_all add: example_defs)
  from updateTicket_status_timestamps[OF f1, where now = 50 and p = resolve_patch and pa = reopen_patch
      and st = Open and pb = resolve_patch and nb = 70 and na = 60] p t
  have a: "map_option t_resolvedAt (Ticket_findById 20
      (snd (TicketService_updateTicket 50 20 resolve_patch example_db))) = Some (Some 50)"
    and b: "map_option t_resolvedAt (Ticket_findById 20
      (snd (TicketService_updateTicket 70 20 resolve_patch
        (snd (TicketService_updateTicket 60 20 reopen_patch example_db))))) = Some (Some 70)"
    by auto
  from updateTicket_status_timestamps[OF f2, where now = 50 and p = resolve_patch and pa = reopen_patch
      and st = Open and pb = resolve_patch and nb = 70 and na = 60] p t
  have c: "map_option t_resolvedAt (Ticket_findById 21
      (snd (TicketService_updateTicket 50 21 resolve_patch example_db))) = Some (Some 9)"
    by auto
  from f1 f2 a b c show ?thesis by blast
qed

text \<open>
  Claim C3 as stated fails for a patch that sets the status to \<^verbatim>\<open>resolved\<close> and also
  carries \<^verbatim>\<open>resolvedAt\<close>: on a ticket that is resolved already the stored
  \<^verbatim>\<open>resolvedAt\<close> is replaced by the value of the patch.
\<close>

theorem updateTicket_resolvedAt_overwritten_counterexample:
  "Ticket_findById 21 example_db = Some ticket2 \<and>
   t_status ticket2 = Resolved \<and> t_resolvedAt ticket2 = Some 9 \<and>
   p_status backdate_patch = Some Resolved \<and>
   map_option t_resolvedAt (Ticket_findById 21
      (snd (TicketService_updateTicket 50 21 backdate_patch example_db))) = Some (Some 99)"
  by (simp add: example_defs ticket_defs Ticket_findById_def)

section \<open>Properties of the ticket handlers\<close>

lemma addComment_found:
  fixes now :: time and content :: jstring and author :: oid and isInternal :: "bool option"
    and tid :: oid and s :: db
  defines "c \<equiv> \<lparr>c_content = content, c_author = author,
                     c_isInternal = truthy isInternal, c_createdAt = now\<rparr>"
  defines "s' \<equiv> s\<lparr>db_tickets := updateOne (\<lambda>t. t_id t = tid) (pushComment now c) (db_tickets s)\<rparr>"
  assumes f: "Ticket_findById tid s = Some t"
  shows "TicketService_addComment now tid content author isInternal s =
           (Inr (populateTicket True s' (pushComment now c t)), s')"
    and "Ticket_findById tid s' = Some (pushComment now c t)"
proof -
  from f have f': "find (\<lambda>t. t_id t = tid) (db_tickets s) = Some t"
    by (simp add: Ticket_findById_def)
  then have "t_id t = tid" using find_Some_member by fastforce
  then have "t_id (pushComment now c t) = tid" by (simp add: pushComment_def)
  with f' find_updateOne[where P = "\<lambda>t. t_id t = tid" and f = "pushComment now c"
      and xs = "db_tickets s" and x = t]
  have u: "find (\<lambda>t. t_id t = tid) (updateOne (\<lambda>t. t_id t = tid) (pushComment now c) (db_tickets s))
      = Some (pushComment now c t)" by blast
  then show "Ticket_findById tid s' = Some (pushComment now c t)"
    by (simp add: Ticket_findById_def s'_def)
  from f' show "TicketService_addComment now tid content author isInternal s =
           (Inr (populateTicket True s' (pushComment now c t)), s')"
    by (simp add: TicketService_addComment_def Let_def c_def s'_def)
qed

text \<open>
  Claim C7.  A validated request of an authenticated actor to add a comment with
  \<^verbatim>\<open>isInternal = true\<close>: a customer gets 403 and the store is unchanged; for an admin
  or an agent and a stored ticket the response is 200 with the updated ticket, whose
  comments are the comments before followed by the new comment, which carries the time
  of the call as its \<^verbatim>\<open>createdAt\<close>.
\<close>

theorem addComment_internal_by_role:
  assumes "req_errors req = []" and "req_user req = Some u"
    and "cb_isInternal (req_body req) = Some True"
  shows
   "(u_role u = Customer \<longrightarrow>
       TicketController_addComment now req s
         = (Message 403 ''Customers cannot create internal comments'', s)) \<and>
    (u_role u = Admin \<or> u_role u = Agent \<longrightarrow>
       (\<forall>t. Ticket_findById (req_id req) s = Some t \<longrightarrow>
          (\<exists>t'. fst (TicketController_addComment now req s)
                  = Json 200 (populateTicket True (snd (TicketController_addComment now req s)) t') \<and>
               Ticket_findById (req_id req) (snd (TicketController_addComment now req s)) = Some t' \<and>
               t' = t\<lparr>t_comments := t_comments t @
                       [\<lparr>c_content = cb_content (req_body req), c_author = u_id u,
                         c_isInternal = True, c_createdAt = now\<rparr>],
                     t_updatedAt := now\<rparr>)))"
proof (intro conjI impI allI)
  assume "u_role u = Customer"
  with assms show "TicketController_addComment now req s
         = (Message 403 ''Customers cannot create internal comments'', s)"
    by (simp add: TicketController_addComment_def truthy_def)
next
  fix t
  assume r: "u_role u = Admin \<or> u_role u = Agent"
    and f: "Ticket_findById (req_id req) s = Some t"
  define c where "c = \<lparr>c_content = cb_content (req_body req), c_author = u_id u,
                         c_isInternal = True, c_createdAt = now\<rparr>"
  define s' where "s' = s\<lparr>db_tickets :=
      updateOne (\<lambda>t. t_id t = req_id req) (pushComment now c) (db_tickets s)\<rparr>"
  from r have nc: "u_role u \<noteq> Customer" by auto
  from f have g: "TicketService_getTicketById (req_id req) s = Inr (populateTicket True s t)"
    by (simp add: TicketService_getTicketById_def Ticket_findById_def)
  from nc have o: "\<not> otherCustomers (Some u) (populateTicket True s t)"
    by (simp add: otherCustomers_def)
  from addComment_found[OF f, of now "cb_content (req_body req)" "u_id u" "cb_isInternal (req_body req)"]
    assms(3)
  have a: "TicketService_addComment now (req_id req) (cb_content (req_body req)) (u_id u)
              (cb_isInternal (req_body req)) s
           = (Inr (populateTicket True s' (pushComment now c t)), s')"
    and b: "Ticket_findById (req_id req) s' = Some (pushComment now c t)"
    by (simp_all add: truthy_def c_def s'_def)
  have e: "TicketController_addComment now req s
      = (Json 200 (populateTicket True s' (pushComment now c t)), s')"
    using assms nc g o a by (simp add: TicketController_addComment_def truthy_def)
  have "pushComment now c t = t\<lparr>t_comments := t_comments t @
                       [\<lparr>c_content = cb_content (req_body req), c_author = u_id u,
                         c_isInternal = True, c_createdAt = now\<rparr>],
                     t_updatedAt := now\<rparr>"
    by (simp add: pushComment_def c_def)
  with e b
  show "\<exists>t'. fst (TicketController_addComment now req s)
                  = Json 200 (populateTicket True (snd (TicketController_addComment now req s)) t') \<and>
               Ticket_findById (req_id req) (snd (TicketController_addComment now req s)) = Some t' \<and>
               t' = t\<lparr>t_comments := t_comments t @
                       [\<lparr>c_content = cb_content (req_body req), c_author = u_id u,
                         c_isInternal = True, c_createdAt = now\<rparr>],
                     t_updatedAt := now\<rparr>"
    by simp
qed

theorem addComment_internal_by_role_witness:
  "req_errors internal_note = [] \<and> req_user internal_note = Some carol \<and>
   cb_isInternal (req_body internal_note) = Some True \<and>
   TicketController_addComment 50 (internal_note\<lparr>req_user := Some alice\<rparr>) example_db
     = (Message 403 ''Customers cannot create internal comments'', example_db) \<and>
   Ticket_findById 20 example_db = Some ticket1 \<and>
   map_option t_comments
     (Ticket_findById 20 (snd (TicketController_addComment 50 internal_note example_db)))
     = Some [note1, \<lparr>c_content = lit ''Call the vendor'', c_author = 3, c_isInternal = True,
                     c_createdAt = 50\<rparr>]"
proof -
  have h: "req_errors internal_note = []" "req_user internal_note = Some carol"
    "cb_isInternal (req_body internal_note) = Some True"
    by (simp_all add: internal_note_def)
  have h': "req_errors (internal_note\<lparr>req_user := Some alice\<rparr>) = []"
    "req_user (internal_note\<lparr>req_user := Some alice\<rparr>) = Some alice"
    "cb_isInternal (req_body (internal_note\<lparr>req_user := Some alice\<rparr>)) = Some True"
    by (simp_all add: internal_note_def)
  have r: "u_role alice = Customer" "u_role carol = Agent" "u_id carol = 3"
    by (simp_all add: example_defs)
  have f: "Ticket_findById 20 example_db = Some ticket1" "req_id internal_note = 20"
    "cb_content (req_body internal_note) = lit ''Call the vendor''"
    "t_comments ticket1 = [note1]"
    by (simp_all add: example_defs Ticket_findById_def internal_note_def)
  from addComment_internal_by_role[OF h', of 50 example_db] r
  have a: "TicketController_addComment 50 (internal_note\<lparr>req_user := Some alice\<rparr>) example_db
     = (Message 403 ''Customers cannot create internal comments'', example_db)"
    by simp
  from addComment_internal_by_role[OF h, of 50 example_db] r f
  have b: "map_option t_comments
     (Ticket_findById 20 (snd (TicketController_addComment 50 internal_note example_db)))
     = Some [note1, \<lparr>c_content = lit ''Call the vendor'', c_author = 3, c_isInternal = True,
                     c_createdAt = 50\<rparr>]"
    by auto
  from h f a b show ?thesis by simp
qed

lemma updateTicket_no_status:
  fixes now :: time and tid :: oid and p :: ticket_patch and s :: db
  defines "f \<equiv> applyTicketPatch now (p\<lparr>p_comments := None\<rparr>)"
  defines "s' \<equiv> s\<lparr>db_tickets := updateOne (\<lambda>t. t_id t = tid) f (db_tickets s)\<rparr>"
  assumes n: "p_status p = None" and t: "Ticket_findById tid s = Some t"
  shows "TicketService_updateTicket now tid p s = (Inr (populateTicket True s' (f t)), s')"
    and "Ticket_findById tid s' = Some (f t)"
proof -
  from t have f': "find (\<lambda>t. t_id t = tid) (db_tickets s) = Some t"
    by (simp add: Ticket_findById_def)
  then have "t_id t = tid" using find_Some_member by fastforce
  then have "t_id (f t) = tid" by (simp add: f_def applyTicketPatch_id)
  with f' find_updateOne[where P = "\<lambda>t. t_id t = tid" and f = f
      and xs = "db_tickets s" and x = t]
  have "find (\<lambda>t. t_id t = tid) (updateOne (\<lambda>t. t_id t = tid) f (db_tickets s)) = Some (f t)"
    by blast
  then show "Ticket_findById tid s' = Some (f t)"
    by (simp add: Ticket_findById_def s'_def)
  from n f' show "TicketService_updateTicket now tid p s = (Inr (populateTicket True s' (f t)), s')"
    by (simp add: TicketService_updateTicket_def statusTransition_def Let_def f_def s'_def)
qed

lemma owner_not_other:
  assumes "t_customer t = u_id u"
  shows "\<not> otherCustomers (Some u) (populateTicket b s t)"
proof -
  have "ur_id c = u_id u" if "populateUser s (u_id u) = Some c" for c
  proof -
    from that obtain x where x: "find (\<lambda>x. u_id x = u_id u) (db_users s) = Some x"
      and c: "c = \<lparr>ur_id = u_id x, ur_name = u_name x, ur_email = u_email x\<rparr>"
      by (auto simp: populateUser_def)
    from find_Some_member[OF x] c show ?thesis by simp
  qed
  with assms show ?thesis
    by (auto simp: otherCustomers_def populateTicket_def split: option.splits)
qed

lemma hasDisallowedUpdates_iff:
  "hasDisallowedUpdates p \<longleftrightarrow> (\<exists>k\<in>set (patchKeys p). k \<noteq> ''title'' \<and> k \<noteq> ''description'')"
  by (simp add: hasDisallowedUpdates_def allowedUpdates_def list_ex_iff)

lemma keyOf_mem: "k \<in> set (keyOf v k) \<longleftrightarrow> v \<noteq> None"
  by (cases v) (simp_all add: keyOf_def)

lemma allowed_keys_fields:
  assumes k: "\<forall>k\<in>set (patchKeys p). k = ''title'' \<or> k = ''description''"
  shows "p_status p = None \<and> p_priority p = None \<and> p_customer p = None \<and>
         p_assignee p = None \<and> p_queue p = None \<and> p_comments p = None \<and>
         p_tags p = None \<and> p_resolvedAt p = None \<and> p_closedAt p = None"
proof -
  have m: "v = None" if "v \<noteq> None \<Longrightarrow> x \<in> set (patchKeys p)"
    "x \<noteq> ''title''" "x \<noteq> ''description''" for x and v :: "'b option"
    using that k by blast
  have "p_status p = None"
    by (rule m[of _ "''status''"]) (simp_all add: patchKeys_def keyOf_mem)
  moreover have "p_priority p = None"
    by (rule m[of _ "''priority''"]) (simp_all add: patchKeys_def keyOf_mem)
  moreover have "p_customer p = None"
    by (rule m[of _ "''customer''"]) (simp_all add: patchKeys_def keyOf_mem)
  moreover have "p_assignee p = None"
    by (rule m[of _ "''assignee''"]) (simp_all add: patchKeys_def keyOf_mem)
  moreover have "p_queue p = None"
    by (rule m[of _ "''queue''"]) (simp_all add: patchKeys_def keyOf_mem)
  moreover have "p_comments p = None"
    by (rule m[of _ "''comments''"]) (simp_all add: patchKeys_def keyOf_mem)
  moreover have "p_tags p = None"
    by (rule m[of _ "''tags''"]) (simp_all add: patchKeys_def keyOf_mem)
  moreover have "p_resolvedAt p = None"
    by (rule m[of _ "''resolvedAt''"]) (simp_all add: patchKeys_def keyOf_mem)
  moreover have "p_closedAt p = None"
    by (rule m[of _ "''closedAt''"]) (simp_all add: patchKeys_def keyOf_mem)
  ultimately show ?thesis by blast
qed

text \<open>
  Claim C5.  A validated update request of a customer on a stored ticket of their own:
  when the body has a key other than \<^verbatim>\<open>title\<close> and \<^verbatim>\<open>description\<close>, the response
  is 403 and the store is unchanged; when every key of the body is \<^verbatim>\<open>title\<close> or
  \<^verbatim>\<open>description\<close>, the response is 200 with the updated ticket, and the stored ticket
  has the (trimmed) title and the description of the body and is otherwise unchanged,
  but for \<^verbatim>\<open>updatedAt\<close>.
\<close>

theorem customer_update_title_description_only:
  assumes "req_errors req = []" and "req_user req = Some u" and "u_role u = Customer"
    and "Ticket_findById (req_id req) s = Some t" and "t_customer t = u_id u"
  shows
   "((\<exists>k\<in>set (patchKeys (req_body req)). k \<noteq> ''title'' \<and> k \<noteq> ''description'') \<longrightarrow>
        TicketController_updateTicket now req s
          = (Message 403 ''Customers can only update title and description'', s)) \<and>
    ((\<forall>k\<in>set (patchKeys (req_body req)). k = ''title'' \<or> k = ''description'') \<longrightarrow>
        (\<exists>t'. fst (TicketController_updateTicket now req s)
                 = Json 200 (populateTicket True (snd (TicketController_updateTicket now req s)) t') \<and>
              Ticket_findById (req_id req) (snd (TicketController_updateTicket now req s)) = Some t' \<and>
              t' = t\<lparr>t_title := (case p_title (req_body req) of None \<Rightarrow> t_title t
                                  | Some x \<Rightarrow> trim x),
                    t_description := (case p_description (req_body req) of
                                        None \<Rightarrow> t_description t | Some x \<Rightarrow> x),
                    t_updatedAt := now\<rparr>))"
proof -
  from assms(4) have g: "TicketService_getTicketById (req_id req) s = Inr (populateTicket True s t)"
    by (simp add: TicketService_getTicketById_def Ticket_findById_def)
  from assms(2) owner_not_other[OF assms(5)]
  have o: "\<not> otherCustomers (req_user req) (populateTicket True s t)" by simp
  from assms(2,3) have c: "isCustomer (req_user req)" by (simp add: isCustomer_def)
  have 1: "TicketController_updateTicket now req s
          = (Message 403 ''Customers can only update title and description'', s)"
    if "\<exists>k\<in>set (patchKeys (req_body req)). k \<noteq> ''title'' \<and> k \<noteq> ''description''"
    using that assms(1) g o c
    by (simp add: TicketController_updateTicket_def hasDisallowedUpdates_iff)
  have 2: "\<exists>t'. fst (TicketController_updateTicket now req s)
                 = Json 200 (populateTicket True (snd (TicketController_updateTicket now req s)) t') \<and>
              Ticket_findById (req_id req) (snd (TicketController_updateTicket now req s)) = Some t' \<and>
              t' = t\<lparr>t_title := (case p_title (req_body req) of None \<Rightarrow> t_title t
                                  | Some x \<Rightarrow> trim x),
                    t_description := (case p_description (req_body req) of
                                        None \<Rightarrow> t_description t | Some x \<Rightarrow> x),
                    t_updatedAt := now\<rparr>"
    if k: "\<forall>k\<in>set (patchKeys (req_body req)). k = ''title'' \<or> k = ''description''"
  proof -
    define f where "f = applyTicketPatch now ((req_body req)\<lparr>p_comments := None\<rparr>)"
    define s' where "s' = s\<lparr>db_tickets :=
        updateOne (\<lambda>t. t_id t = req_id req) f (db_tickets s)\<rparr>"
    note a = allowed_keys_fields[OF k]
    from a have n: "p_status (req_body req) = None" by simp
    from k have h: "\<not> hasDisallowedUpdates (req_body req)"
      by (auto simp: hasDisallowedUpdates_iff)
    from updateTicket_no_status[OF n assms(4), of now]
    have u: "TicketService_updateTicket now (req_id req) (req_body req) s
               = (Inr (populateTicket True s' (f t)), s')"
      and v: "Ticket_findById (req_id req) s' = Some (f t)"
      by (simp_all add: f_def s'_def)
    have e: "TicketController_updateTicket now req s = (Json 200 (populateTicket True s' (f t)), s')"
      using assms(1) g o h u by (simp add: TicketController_updateTicket_def)
    have "f t = t\<lparr>t_title := (case p_title (req_body req) of None \<Rightarrow> t_title t
                                  | Some x \<Rightarrow> trim x),
                    t_description := (case p_description (req_body req) of
                                        None \<Rightarrow> t_description t | Some x \<Rightarrow> x),
                    t_updatedAt := now\<rparr>"
      using a by (simp add: f_def applyTicketPatch_def)
    with e v show ?thesis by simp
  qed
  from 1 2 show ?thesis by blast
qed

theorem customer_update_title_description_only_witness:
  "req_errors close_request = [] \<and> req_user close_request = Some alice \<and>
   u_role alice = Customer \<and> Ticket_findById (req_id close_request) example_db = Some ticket1 \<and>
   t_customer ticket1 = u_id alice \<and>
   TicketController_updateTicket 50 close_request example_db
     = (Message 403 ''Customers can only update title and description'', example_db) \<and>
   req_errors rename_request = [] \<and> req_user rename_request = Some alice \<and>
   Ticket_findById (req_id rename_request) example_db = Some ticket1 \<and>
   Ticket_findById 20 (snd (TicketController_updateTicket 50 rename_request example_db))
     = Some (ticket1\<lparr>t_title := lit ''Printer on fire'', t_updatedAt := 50\<rparr>)"
proof -
  have h1: "req_errors close_request = []" "req_user close_request = Some alice"
    and h2: "req_errors rename_request = []" "req_user rename_request = Some alice"
    by (simp_all add: close_request_def rename_request_def)
  have r: "u_role alice = Customer" by (simp add: example_defs)
  have f: "Ticket_findById (req_id close_request) example_db = Some ticket1"
    "Ticket_findById (req_id rename_request) example_db = Some ticket1"
    by (simp_all add: example_defs Ticket_findById_def close_request_def rename_request_def)
  have o: "t_customer ticket1 = u_id alice" by (simp add: example_defs)
  have k1: "\<exists>k\<in>set (patchKeys (req_body close_request)). k \<noteq> ''title'' \<and> k \<noteq> ''description''"
    by (simp add: close_request_def patchKeys_def keyOf_def example_defs)
  have k2: "\<forall>k\<in>set (patchKeys (req_body rename_request)). k = ''title'' \<or> k = ''description''"
    by (simp add: rename_request_def patchKeys_def keyOf_def example_defs)
  have b: "req_id rename_request = 20" "p_title (req_body rename_request) = Some (0xA0 # lit '' Printer on fire '' @ [0x2003])"
    "p_description (req_body rename_request) = None"
    "trim (0xA0 # lit '' Printer on fire '' @ [0x2003]) = lit ''Printer on fire''"
    by (simp_all add: rename_request_def example_defs trim_def isSpace_def lit_def)
  from customer_update_title_description_only[OF h1 r f(1) o, of 50] k1
  have a: "TicketController_updateTicket 50 close_request example_db
     = (Message 403 ''Customers can only update title and description'', example_db)"
    by blast
  from customer_update_title_description_only[OF h2 r f(2) o, of 50] k2 b
  have c: "Ticket_findById 20 (snd (TicketController_updateTicket 50 rename_request example_db))
     = Some (ticket1\<lparr>t_title := lit ''Printer on fire'', t_updatedAt := 50\<rparr>)"
    by (auto simp: example_defs)
  from h1 h2 r f o a c show ?thesis by blast
qed

lemma populateUser_id: "populateUser s i = Some c \<Longrightarrow> ur_id c = i"
proof -
  assume "populateUser s i = Some c"
  then obtain x where x: "find (\<lambda>x. u_id x = i) (db_users s) = Some x"
    and c: "c = \<lparr>ur_id = u_id x, ur_name = u_name x, ur_email = u_email x\<rparr>"
    by (auto simp: populateUser_def)
  from find_Some_member[OF x] c show ?thesis by simp
qed

lemma sortsNewestFirst_set: "sortsNewestFirst srt \<Longrightarrow> set (srt ts) = set ts"
  by (metis sortsNewestFirst_def mset_eq_setD)

lemma getTickets_Inr:
  assumes "TicketService_getTickets eng f s = Inr pg"
  shows "\<exists>m. compileSearch eng f = Inr m \<and>
     pg = \<lparr>r_tickets = map (populateTicket False s)
              (take (orDefault (f_limit f) 10)
                (drop ((orDefault (f_page f) 1 - 1) * orDefault (f_limit f) 10)
                  (eng_sort eng (filter (matchesQuery m f) (db_tickets s))))),
           r_total = length (filter (matchesQuery m f) (db_tickets s)),
           r_page = orDefault (f_page f) 1,
           r_pages = nat \<lceil>real (length (filter (matchesQuery m f) (db_tickets s)))
                          / real (orDefault (f_limit f) 10)\<rceil>\<rparr>"
  using assms by (auto simp: TicketService_getTickets_def Let_def split: sum.splits)

lemma getTickets_customer_only:
  assumes "f_customer f = Some uid" and "TicketService_getTickets eng f s = Inr pg"
    and "sortsNewestFirst (eng_sort eng)"
  shows "\<exists>ts. r_tickets pg = map (populateTicket False s) ts \<and>
            (\<forall>t\<in>set ts. t \<in> set (db_tickets s) \<and> t_customer t = uid)"
proof -
  from getTickets_Inr[OF assms(2)] obtain m where
    r: "r_tickets pg = map (populateTicket False s)
              (take (orDefault (f_limit f) 10)
                (drop ((orDefault (f_page f) 1 - 1) * orDefault (f_limit f) 10)
                  (eng_sort eng (filter (matchesQuery m f) (db_tickets s)))))"
    by auto
  define ts where "ts = take (orDefault (f_limit f) 10)
                (drop ((orDefault (f_page f) 1 - 1) * orDefault (f_limit f) 10)
                  (eng_sort eng (filter (matchesQuery m f) (db_tickets s))))"
  have "set ts \<subseteq> set (eng_sort eng (filter (matchesQuery m f) (db_tickets s)))"
    unfolding ts_def by (meson set_drop_subset set_take_subset subset_trans)
  with sortsNewestFirst_set[OF assms(3)]
  have "set ts \<subseteq> set (filter (matchesQuery m f) (db_tickets s))" by simp
  moreover have "t_customer t = uid" if "matchesQuery m f t" for t
    using that assms(1) by (simp add: matchesQuery_def)
  ultimately have "\<forall>t\<in>set ts. t \<in> set (db_tickets s) \<and> t_customer t = uid" by auto
  with r show ?thesis unfolding ts_def by blast
qed

text \<open>
  What the handlers do by design for the visibility of tickets.  For a customer:
  requesting a stored ticket whose customer reference resolves to a stored user other
  than the actor gives 403; requesting a stored ticket whose customer is the actor gives
  200 with the ticket; the list handler replaces whatever customer filter the query
  carries by the actor's id, answers 200 with the service's page or 500 when the service
  throws, and every ticket of a page is a stored ticket whose customer is the actor.
  For an admin or an agent every stored ticket is returned with 200, and the list
  handler passes the query on as it is.
\<close>

lemma customer_sees_own_tickets_only:
  assumes "req_user req = Some u" and "req_errors req = []"
    and "sortsNewestFirst (eng_sort eng)"
  shows
   "(u_role u = Customer \<longrightarrow>
       (\<forall>t c. Ticket_findById (req_id req) s = Some t \<and>
              populateUser s (t_customer t) = Some c \<and> t_customer t \<noteq> u_id u \<longrightarrow>
          TicketController_getTicketById req s
            = Message 403 ''Not authorized to access this ticket'') \<and>
       (\<forall>t. Ticket_findById (req_id req) s = Some t \<and> t_customer t = u_id u \<longrightarrow>
          TicketController_getTicketById req s = Json 200 (populateTicket True s t)) \<and>
       TicketController_getTickets eng req s
         = (case TicketService_getTickets eng ((req_query req)\<lparr>f_customer := Some (u_id u)\<rparr>) s of
              Inl e \<Rightarrow> Message 500 (message e)
            | Inr pg \<Rightarrow> Json 200 pg) \<and>
       (\<forall>n pg. TicketController_getTickets eng req s = Json n pg \<longrightarrow>
          n = 200 \<and>
          (\<exists>ts. r_tickets pg = map (populateTicket False s) ts \<and>
             (\<forall>t\<in>set ts. t \<in> set (db_tickets s) \<and> t_customer t = u_id u)))) \<and>
    (u_role u = Admin \<or> u_role u = Agent \<longrightarrow>
       (\<forall>t. Ticket_findById (req_id req) s = Some t \<longrightarrow>
          TicketController_getTicketById req s = Json 200 (populateTicket True s t)) \<and>
       TicketController_getTickets eng req s
         = (case TicketService_getTickets eng (req_query req) s of
              Inl e \<Rightarrow> Message 500 (message e)
            | Inr pg \<Rightarrow> Json 200 pg))"
proof -
  have g: "TicketService_getTicketById (req_id req) s = Inr (populateTicket True s t)"
    if "Ticket_findById (req_id req) s = Some t" for t
    using that by (simp add: TicketService_getTicketById_def Ticket_findById_def)
  have 1: "TicketController_getTicketById req s
            = Message 403 ''Not authorized to access this ticket''"
    if "u_role u = Customer" "Ticket_findById (req_id req) s = Some t"
      "populateUser s (t_customer t) = Some c" "t_customer t \<noteq> u_id u" for t c
    using that assms(1) g[OF that(2)] populateUser_id[OF that(3)]
    by (simp add: TicketController_getTicketById_def otherCustomers_def populateTicket_def)
  have 2: "TicketController_getTicketById req s = Json 200 (populateTicket True s t)"
    if "Ticket_findById (req_id req) s = Some t" "t_customer t = u_id u" for t
    using g[OF that(1)] owner_not_other[OF that(2), of True s] assms(1)
    by (simp add: TicketController_getTicketById_def)
  have 3: "TicketController_getTickets eng req s
         = (case TicketService_getTickets eng ((req_query req)\<lparr>f_customer := Some (u_id u)\<rparr>) s of
              Inl e \<Rightarrow> Message 500 (message e)
            | Inr pg \<Rightarrow> Json 200 pg)"
    if "u_role u = Customer"
    using that assms(1,2) by (simp add: TicketController_getTickets_def)
  have 4: "n = 200 \<and>
          (\<exists>ts. r_tickets pg = map (populateTicket False s) ts \<and>
             (\<forall>t\<in>set ts. t \<in> set (db_tickets s) \<and> t_customer t = u_id u))"
    if c: "u_role u = Customer" and j: "TicketController_getTickets eng req s = Json n pg" for n pg
  proof -
    from 3[OF c] j
    have r: "TicketService_getTickets eng ((req_query req)\<lparr>f_customer := Some (u_id u)\<rparr>) s = Inr pg"
      and n: "n = 200"
      by (auto split: sum.splits)
    from getTickets_customer_only[OF _ r assms(3), of "u_id u"] n show ?thesis by simp
  qed
  have 5: "TicketController_getTicketById req s = Json 200 (populateTicket True s t)"
    if "u_role u = Admin \<or> u_role u = Agent" "Ticket_findById (req_id req) s = Some t" for t
    using that(1) g[OF that(2)] assms(1)
    by (auto simp: TicketController_getTicketById_def otherCustomers_def)
  have 6: "TicketController_getTickets eng req s
         = (case TicketService_getTickets eng (req_query req) s of
              Inl e \<Rightarrow> Message 500 (message e)
            | Inr pg \<Rightarrow> Json 200 pg)"
    if "u_role u = Admin \<or> u_role u = Agent"
    using that assms(1,2) by (auto simp: TicketController_getTickets_def)
  from 1 2 3 4 5 6 show ?thesis by blast
qed

lemma pages_least:
  assumes "0 < b"
  shows "a \<le> nat \<lceil>real a / real b\<rceil> * b"
    and "a \<le> n * b \<Longrightarrow> nat \<lceil>real a / real b\<rceil> \<le> n"
proof -
  let ?x = "real a / real b"
  have "0 \<le> ?x" by simp
  then have "(-1::real) < ?x" by linarith
  then have c0: "0 \<le> \<lceil>?x\<rceil>" by simp
  have "real a = ?x * real b" using assms by simp
  also have "\<dots> \<le> of_int \<lceil>?x\<rceil> * real b"
    by (intro mult_right_mono) simp_all
  also have "of_int \<lceil>?x\<rceil> = real (nat \<lceil>?x\<rceil>)" using c0 by simp
  finally have "real a \<le> real (nat \<lceil>?x\<rceil> * b)" by simp
  then show "a \<le> nat \<lceil>?x\<rceil> * b" by (simp only: of_nat_le_iff)
next
  let ?x = "real a / real b"
  assume "a \<le> n * b"
  then have "real a \<le> real (n * b)" by (simp only: of_nat_le_iff)
  then have "?x \<le> real n" using assms by (simp add: divide_le_eq)
  then have "\<lceil>?x\<rceil> \<le> int n" by (simp add: ceiling_le_iff)
  then show "nat \<lceil>?x\<rceil> \<le> n" by (simp only: nat_le_iff)
qed

lemma pages_div:
  assumes "0 < b"
  shows "nat \<lceil>real a / real b\<rceil> = (a + b - 1) div b"
proof (rule antisym)
  have "a + b - 1 = (a + b - 1) div b * b + (a + b - 1) mod b" by simp
  moreover have "(a + b - 1) mod b < b" using assms by simp
  ultimately have "a \<le> (a + b - 1) div b * b" by linarith
  then show "nat \<lceil>real a / real b\<rceil> \<le> (a + b - 1) div b"
    by (rule pages_least(2)[OF assms])
next
  from pages_least(1)[OF assms, of a]
  have "a + b - 1 < (nat \<lceil>real a / real b\<rceil> + 1) * b" using assms by simp
  then have "(a + b - 1) div b < nat \<lceil>real a / real b\<rceil> + 1"
    using assms by (simp add: div_less_iff_less_mult)
  then show "(a + b - 1) div b \<le> nat \<lceil>real a / real b\<rceil>" by simp
qed

lemma pages_2_10: "nat \<lceil>(1::real) / 5\<rceil> = 1"
  using pages_div[of 10 2] by simp

lemma newestFirst_mset: "mset (newestFirst ts) = mset ts"
  by (simp add: newestFirst_def)

lemma newestFirst_sorted:
  "sorted_wrt (\<lambda>a b. t_createdAt b \<le> t_createdAt a) (newestFirst ts)"
proof -
  have "sorted (map t_createdAt (sort_key t_createdAt ts))" by (rule sorted_sort_key)
  then have "sorted_wrt (\<lambda>a b. t_createdAt a \<le> t_createdAt b) (sort_key t_createdAt ts)"
    by (simp add: sorted_map)
  then show ?thesis by (simp add: newestFirst_def sorted_wrt_rev)
qed

lemma plain_engine_sorts: "sortsNewestFirst (eng_sort plain_engine)"
  by (simp add: sortsNewestFirst_def plain_engine_def newestFirst_mset newestFirst_sorted)


lemmas list_defs = TicketService_getTickets_def TicketController_getTickets_def matchesQuery_def
  compileSearch_def searchOf_def plain_engine_def strict_engine_def
  orDefault_def newestFirst_def TicketController_getTicketById_def otherCustomers_def
  isCustomer_def TicketController_updateTicket_def hasDisallowedUpdates_def allowedUpdates_def
  patchKeys_def keyOf_def Ticket_findById_def

lemma customer_sees_own_tickets_only_witness:
  "req_user view_request = Some bob \<and> req_errors view_request = [] \<and> u_role bob = Customer \<and>
   sortsNewestFirst (eng_sort plain_engine) \<and>
   Ticket_findById (req_id view_request) example_db = Some ticket1 \<and>
   TicketController_getTicketById view_request example_db
     = Message 403 ''Not authorized to access this ticket'' \<and>
   TicketController_getTicketById (view_request\<lparr>req_user := Some alice\<rparr>) example_db
     = Json 200 (populateTicket True example_db ticket1) \<and>
   TicketController_getTicketById (view_request\<lparr>req_user := Some carol\<rparr>) example_db
     = Json 200 (populateTicket True example_db ticket1) \<and>
   TicketController_getTickets plain_engine (view_request\<lparr>req_user := Some alice\<rparr>) example_db
     = Json 200 \<lparr>r_tickets = [populateTicket False example_db ticket3,
                               populateTicket False example_db ticket1],
                  r_total = 2, r_page = 1, r_pages = 1\<rparr>"
proof -
  have h: "req_user view_request = Some bob" "req_errors view_request = []"
    and ha: "req_user (view_request\<lparr>req_user := Some alice\<rparr>) = Some alice"
      "req_errors (view_request\<lparr>req_user := Some alice\<rparr>) = []"
    and hc: "req_user (view_request\<lparr>req_user := Some carol\<rparr>) = Some carol"
      "req_errors (view_request\<lparr>req_user := Some carol\<rparr>) = []"
    by (simp_all add: view_request_def)
  note e = plain_engine_sorts
  have r: "u_role bob = Customer" "u_role alice = Customer" "u_role carol = Agent"
    "u_id alice = 1" "u_id bob = 2"
    by (simp_all add: example_defs)
  have f: "Ticket_findById (req_id view_request) example_db = Some ticket1"
    "req_id (view_request\<lparr>req_user := Some alice\<rparr>) = req_id view_request"
    "req_id (view_request\<lparr>req_user := Some carol\<rparr>) = req_id view_request"
    "req_query (view_request\<lparr>req_user := Some alice\<rparr>) = no_filter\<lparr>f_customer := Some 2\<rparr>"
    by (simp_all add: view_request_def example_defs Ticket_findById_def)
  have t: "t_customer ticket1 = 1"
    "populateUser example_db 1
       = Some \<lparr>ur_id = 1, ur_name = lit ''Alice'', ur_email = lit ''alice@example.org''\<rparr>"
    by (simp_all add: example_defs populateUser_def)
  have l: "TicketService_getTickets plain_engine (no_filter\<lparr>f_customer := Some 1\<rparr>) example_db
     = Inr \<lparr>r_tickets = [populateTicket False example_db ticket3,
                          populateTicket False example_db ticket1],
             r_total = 2, r_page = 1, r_pages = 1\<rparr>"
    by (simp add: example_defs list_defs pages_2_10)
  note A = customer_sees_own_tickets_only[OF h e, where s = example_db]
  from A[THEN conjunct1, THEN mp, OF r(1), THEN conjunct1] r f(1) t
  have a: "TicketController_getTicketById view_request example_db
     = Message 403 ''Not authorized to access this ticket''"
    by auto
  note B = customer_sees_own_tickets_only[OF ha e, where s = example_db]
  from B[THEN conjunct1, THEN mp, OF r(2), THEN conjunct2, THEN conjunct1] r f t
  have b: "TicketController_getTicketById (view_request\<lparr>req_user := Some alice\<rparr>) example_db
     = Json 200 (populateTicket True example_db ticket1)"
    by auto
  from B[THEN conjunct1, THEN mp, OF r(2), THEN conjunct2, THEN conjunct2, THEN conjunct1] r f l
  have d: "TicketController_getTickets plain_engine (view_request\<lparr>req_user := Some alice\<rparr>) example_db
     = Json 200 \<lparr>r_tickets = [populateTicket False example_db ticket3,
                               populateTicket False example_db ticket1],
                  r_total = 2, r_page = 1, r_pages = 1\<rparr>"
    by simp
  note C = customer_sees_own_tickets_only[OF hc e, where s = example_db]
  from C[THEN conjunct2, THEN mp, THEN conjunct1] r f
  have c: "TicketController_getTicketById (view_request\<lparr>req_user := Some carol\<rparr>) example_db
     = Json 200 (populateTicket True example_db ticket1)"
    by auto
  from h e r(1) f(1) a b c d show ?thesis by simp
qed

text \<open>
  Claim C6 does not hold of the code.  The customer of ticket 20 in this store is the id
  99, which is not the id of the customer Bob and resolves to no stored user.  The
  reference is populated with \<^verbatim>\<open>null\<close>, the ownership condition of the handler needs
  an object there, and Bob reads the ticket with 200; the claim, and the comments in the
  source (``Check if user has access to this ticket'', ``they can only see their own
  tickets''), ask for 403.  The list handler, which filters on the stored reference,
  withholds the same ticket from Bob.  The last part reaches such a ticket through the
  handlers: an agent's update sets the customer of ticket 20 to an id with no user, and
  Bob then reads the ticket.
\<close>

theorem getTicketById_unresolved_customer_not_denied:
  "u_role bob = Customer \<and> req_user view_request = Some bob \<and>
   map_option t_customer (Ticket_findById (req_id view_request) dangling_db) = Some 99 \<and>
   u_id bob = 2 \<and>
   statusCode (TicketController_getTicketById view_request dangling_db) = 200 \<and>
   TicketController_getTickets plain_engine view_request dangling_db
     = Json 200 \<lparr>r_tickets = [], r_total = 0, r_page = 1, r_pages = 0\<rparr> \<and>
   u_role carol = Agent \<and> req_user reassign_request = Some carol \<and>
   statusCode (fst (TicketController_updateTicket 50 reassign_request example_db)) = 200 \<and>
   statusCode (TicketController_getTicketById view_request
      (snd (TicketController_updateTicket 50 reassign_request example_db))) = 200"
  by (simp add: example_defs view_request_def reassign_request_def list_defs ticket_defs)

section \<open>Properties of the ticket list\<close>







section \<open>Assigning a ticket\<close>

lemma assignTicket_throws:
  "TicketService_assignTicket now tid assigneeId s = (Inl CastError, s)"
  by (simp add: TicketService_assignTicket_def castStatus_def)

text \<open>
  Claim C2 does not hold of the code.  assignTicket on the stored ticket 20, whose status
  is \<^verbatim>\<open>new\<close>: the call throws, the store is unchanged, the ticket keeps the status
  \<^verbatim>\<open>new\<close> and has no assignee.  The claim, and the comment in the source (``If the
  ticket is new, update status to open when assigned''), ask for the status \<^verbatim>\<open>open\<close>
  and the assignee set.
\<close>

theorem assignTicket_new_ticket_not_opened:
  "Ticket_findById 20 example_db = Some ticket1 \<and> t_status ticket1 = New \<and>
   TicketService_assignTicket 50 20 3 example_db = (Inl CastError, example_db) \<and>
   map_option t_status (Ticket_findById 20 (snd (TicketService_assignTicket 50 20 3 example_db)))
     = Some New \<and>
   map_option t_assignee (Ticket_findById 20 (snd (TicketService_assignTicket 50 20 3 example_db)))
     = Some None"
  by (simp add: assignTicket_throws) (simp add: example_defs Ticket_findById_def)

section \<open>Well-formed stores stay well-formed\<close>

text \<open>
  The stores with no queue and no ticket are well-formed, and every service keeps a
  well-formed store well-formed, also when it throws: the theorems above that assume
  \<^const>\<open>wf_db\<close> hold in every store that the services can reach.
\<close>

lemma wf_no_documents:
  "wf_db \<lparr>db_users = us, db_queues = [], db_tickets = [], db_next_id = n\<rparr>"
  by (simp add: wf_db_def)

lemma unsetDefault_ids: "map q_id (unsetDefault now qs) = map q_id qs"
  by (induction qs) (auto simp: unsetDefault_def)

lemma map_updateOne_same:
  "(\<And>x. g (f x) = g x) \<Longrightarrow> map g (updateOne P f xs) = map g xs"
  by (induction xs) auto

lemma set_deleteOne_subset: "set (deleteOne P xs) \<subseteq> set xs"
  by (induction xs) auto

lemma distinct_deleteOne: "distinct (map g xs) \<Longrightarrow> distinct (map g (deleteOne P xs))"
proof (induction xs)
  case Nil
  then show ?case by simp
next
  case (Cons a xs)
  from set_deleteOne_subset[of P xs] have "g ` set (deleteOne P xs) \<subseteq> g ` set xs" by blast
  with Cons show ?case by auto
qed

lemma list_all_updateOne:
  "list_all Q xs \<Longrightarrow> (\<And>x. Q x \<Longrightarrow> Q (f x)) \<Longrightarrow> list_all Q (updateOne P f xs)"
  by (induction xs) auto

lemma list_all_deleteOne: "list_all Q xs \<Longrightarrow> list_all Q (deleteOne P xs)"
  using set_deleteOne_subset[of P xs] by (auto simp: list_all_iff)

lemma list_all_unsetDefault:
  "list_all (\<lambda>q. q_id q < n) (unsetDefault now qs) = list_all (\<lambda>q. q_id q < n) qs"
  by (induction qs) (auto simp: unsetDefault_def)

lemma wf_unsetDefault: "wf_db s \<Longrightarrow> wf_db (s\<lparr>db_queues := unsetDefault now (db_queues s)\<rparr>)"
  by (simp add: wf_db_def unsetDefault_ids list_all_unsetDefault)

lemma wf_Queue_save: "wf_db s \<Longrightarrow> wf_db (snd (Queue_save now qd s))"
  by (auto simp: wf_db_def Queue_save_def Let_def list_all_iff less_Suc_eq)

lemma wf_createQueue: "wf_db s \<Longrightarrow> wf_db (snd (QueueService_createQueue now qd s))"
  by (simp add: QueueService_createQueue_def wf_Queue_save wf_unsetDefault)

lemma applyQueuePatch_id: "q_id (applyQueuePatch now qp q) = q_id q"
  by (simp add: applyQueuePatch_def)

lemma wf_updateQueue: "wf_db s \<Longrightarrow> wf_db (snd (QueueService_updateQueue now qid qp s))"
proof -
  assume w: "wf_db s"
  have u: "wf_db (s'\<lparr>db_queues := updateOne (\<lambda>r. q_id r = qid) (applyQueuePatch now qp) (db_queues s')\<rparr>)"
    if "wf_db s'" for s'
    using that
    by (simp add: wf_db_def map_updateOne_same applyQueuePatch_id list_all_updateOne)
  show ?thesis
    using w u[OF w] u[OF wf_unsetDefault[OF w, of now]] wf_unsetDefault[OF w, of now]
    by (auto simp: QueueService_updateQueue_def Let_def split: option.splits)
qed

lemma wf_deleteQueue: "wf_db s \<Longrightarrow> wf_db (snd (QueueService_deleteQueue qid s))"
  by (auto simp: QueueService_deleteQueue_def wf_db_def distinct_deleteOne list_all_deleteOne
      split: sum.splits)

lemma wf_createTicket: "wf_db s \<Longrightarrow> wf_db (snd (TicketService_createTicket now td s))"
proof -
  assume w: "wf_db s"
  have q: "wf_db (snd (createTicket_queue now td s))"
    using w wf_createQueue[OF w, of now generalQueue]
    by (auto simp: createTicket_queue_def split: option.splits sum.splits prod.splits)
  have t: "wf_db (snd (Ticket_save now td qo s'))" if "wf_db s'" for qo s'
    using that
    by (auto simp: wf_db_def Ticket_save_def Let_def list_all_iff less_Suc_eq split: option.splits)
  from q t show ?thesis
    by (auto simp: TicketService_createTicket_def split: prod.splits sum.splits)
      (metis snd_conv)+
qed

lemma wf_updateTicket: "wf_db s \<Longrightarrow> wf_db (snd (TicketService_updateTicket now tid p s))"
  by (auto simp: TicketService_updateTicket_def Let_def wf_db_def map_updateOne_same
      applyTicketPatch_id list_all_updateOne split: sum.splits option.splits)

lemma wf_addComment:
  "wf_db s \<Longrightarrow> wf_db (snd (TicketService_addComment now tid c a i s))"
  by (auto simp: TicketService_addComment_def Let_def wf_db_def map_updateOne_same
      pushComment_def list_all_updateOne split: option.splits)

end
